theory Spec2Isabelle
  imports Main
begin

section \<open>Python values, objects and errors\<close>

text \<open>
  The modules under \<open>pyrseas/dbobject\<close> work on Python instances whose attributes are
  created, tested with \<open>hasattr\<close> and overwritten at run time. An instance is therefore
  modelled by its class and its attribute dictionary, and an attribute value by a small
  universe of Python values. Floating point numbers are left out (a catalog \<open>cost\<close> is
  read here as an integer).
\<close>

type_synonym ref = nat

datatype pyval =
    PyNone
  | PyBool bool
  | PyInt int
  | PyStr string
  | PyList "pyval list"
  | PyObj ref

datatype pyclass =
    FunctionClass | AggregateClass | DbTypeClass | TriggerClass | TableClass
  | OperatorFamilyClass | OtherClass

record pyinst =
  cls :: pyclass
  attrs :: "string \<rightharpoonup> pyval"

text \<open>Objects reached through a reference (a type, a table) live in a store.\<close>

type_synonym heap = "ref \<Rightarrow> pyinst"

datatype py_error =
    AttributeError
  | KeyError string
  | ValueError string
  | TypeError
  | IndexError
  | NotModelled

text \<open>Statement lists nest: \<open>stmts.append(self.create())\<close> appends a list.\<close>

datatype stmt = S string | L "stmt list"

fun flatten :: "stmt list \<Rightarrow> string list" where
  "flatten [] = []"
| "flatten (S s # r) = s # flatten r"
| "flatten (L l # r) = flatten l @ flatten r"

definition bindE :: "py_error + 'a \<Rightarrow> ('a \<Rightarrow> py_error + 'b) \<Rightarrow> py_error + 'b" where
  "bindE m f = (case m of Inl e \<Rightarrow> Inl e | Inr x \<Rightarrow> f x)"

definition hasattr :: "pyinst \<Rightarrow> string \<Rightarrow> bool" where
  "hasattr obj a = (attrs obj a \<noteq> None)"

text \<open>\<open>obj.a\<close>: raises AttributeError when the attribute is missing.\<close>

definition getattr :: "pyinst \<Rightarrow> string \<Rightarrow> py_error + pyval" where
  "getattr obj a = (case attrs obj a of None \<Rightarrow> Inl AttributeError | Some v \<Rightarrow> Inr v)"

text \<open>\<open>getattr(obj, a, None)\<close>.\<close>

definition getattr_default :: "pyinst \<Rightarrow> string \<Rightarrow> pyval" where
  "getattr_default obj a = (case attrs obj a of None \<Rightarrow> PyNone | Some v \<Rightarrow> v)"

definition setattr :: "pyinst \<Rightarrow> string \<Rightarrow> pyval \<Rightarrow> pyinst" where
  "setattr obj a v = obj\<lparr>attrs := (attrs obj)(a \<mapsto> v)\<rparr>"

text \<open>Truth value of a Python value; an instance is true.\<close>

fun py_truthy :: "pyval \<Rightarrow> bool" where
  "py_truthy PyNone = False"
| "py_truthy (PyBool b) = b"
| "py_truthy (PyInt i) = (i \<noteq> 0)"
| "py_truthy (PyStr s) = (s \<noteq> [])"
| "py_truthy (PyList l) = (l \<noteq> [])"
| "py_truthy (PyObj r) = True"

text \<open>\<open>==\<close> on Python values: a bool is the integer 0 or 1, instances compare by identity.\<close>

fun py_eq :: "pyval \<Rightarrow> pyval \<Rightarrow> bool" where
  "py_eq PyNone PyNone = True"
| "py_eq (PyBool a) (PyBool b) = (a = b)"
| "py_eq (PyInt a) (PyInt b) = (a = b)"
| "py_eq (PyBool a) (PyInt b) = ((if a then 1 else 0) = b)"
| "py_eq (PyInt a) (PyBool b) = (a = (if b then 1 else 0))"
| "py_eq (PyStr a) (PyStr b) = (a = b)"
| "py_eq (PyList a) (PyList b) = list_all2 py_eq a b"
| "py_eq (PyObj a) (PyObj b) = (a = b)"
| "py_eq _ _ = False"

section \<open>Strings\<close>

text \<open>\<open>str.upper\<close> and \<open>str.lower\<close> on the ASCII letters.\<close>

definition upper_char :: "char \<Rightarrow> char" where
  "upper_char c =
     (let n = (of_char c :: nat) in if 97 \<le> n \<and> n \<le> 122 then char_of (n - 32) else c)"

definition lower_char :: "char \<Rightarrow> char" where
  "lower_char c =
     (let n = (of_char c :: nat) in if 65 \<le> n \<and> n \<le> 90 then char_of (n + 32) else c)"

definition upper :: "string \<Rightarrow> string" where
  "upper s = map upper_char s"

definition lower :: "string \<Rightarrow> string" where
  "lower s = map lower_char s"

text \<open>Decimal digits of a natural number, and \<open>'%s' % v\<close> on the scalar values.\<close>

fun str_nat :: "nat \<Rightarrow> string" where
  "str_nat n =
     (if n < 10 then [char_of (48 + n)] else str_nat (n div 10) @ [char_of (48 + n mod 10)])"

declare str_nat.simps [simp del]

fun py_str :: "pyval \<Rightarrow> py_error + string" where
  "py_str PyNone = Inr ''None''"
| "py_str (PyBool b) = Inr (if b then ''True'' else ''False'')"
| "py_str (PyInt i) = Inr (if i < 0 then ''-'' @ str_nat (nat (- i)) else str_nat (nat i))"
| "py_str (PyStr s) = Inr s"
| "py_str (PyList l) = Inl NotModelled"
| "py_str (PyObj r) = Inl NotModelled"

text \<open>\<open>v.upper()\<close>: only a string has the method.\<close>

fun py_upper :: "pyval \<Rightarrow> py_error + string" where
  "py_upper (PyStr s) = Inr (upper s)"
| "py_upper _ = Inl AttributeError"

text \<open>\<open>v in [a, b, ...]\<close>.\<close>

definition py_in :: "pyval \<Rightarrow> pyval list \<Rightarrow> bool" where
  "py_in v l = list_ex (py_eq v) l"

text \<open>\<open>v[0]\<close>.\<close>

fun py_index0 :: "pyval \<Rightarrow> py_error + pyval" where
  "py_index0 (PyList l) = (case l of [] \<Rightarrow> Inl IndexError | x # _ \<Rightarrow> Inr x)"
| "py_index0 (PyStr s) = (case s of [] \<Rightarrow> Inl IndexError | c # _ \<Rightarrow> Inr (PyStr [c]))"
| "py_index0 _ = Inl TypeError"

text \<open>\<open>del dct[k]\<close>.\<close>

definition del :: "(string \<rightharpoonup> pyval) \<Rightarrow> string \<Rightarrow> py_error + (string \<rightharpoonup> pyval)" where
  "del dct k = (if dct k = None then Inl (KeyError k) else Inr (dct(k := None)))"

section \<open>Function.create and Function.to_map\<close>

definition VOLATILITY_TYPES :: "pyval \<Rightarrow> py_error + string" where
  "VOLATILITY_TYPES k =
     (if py_eq k (PyStr ''i'') then Inr ''immutable''
      else if py_eq k (PyStr ''s'') then Inr ''stable''
      else if py_eq k (PyStr ''v'') then Inr ''volatile''
      else (case k of PyList _ \<Rightarrow> Inl TypeError | _ \<Rightarrow> Inl (KeyError ''volatility'')))"






text \<open>The clauses of the CREATE FUNCTION statement, one definition per local variable.\<close>

definition create_src :: "pyinst \<Rightarrow> pyval \<Rightarrow> py_error + string" where
  "create_src self newsrc =
     (if hasattr self ''obj_file'' then
        bindE (getattr self ''obj_file'') (\<lambda>obj_file.
        bindE (if hasattr self ''link_symbol'' \<and> py_truthy (getattr_default self ''link_symbol'')
               then getattr self ''link_symbol'' else getattr self ''name'') (\<lambda>sym.
        bindE (py_str obj_file) (\<lambda>a.
        bindE (py_str sym) (\<lambda>b.
          Inr ([CHR 0x27] @ a @ [CHR 0x27] @ '', '' @ [CHR 0x27] @ b @ [CHR 0x27])))))
      else
        bindE (getattr self ''language'') (\<lambda>lang.
        bindE (if py_truthy newsrc then Inr newsrc else getattr self ''source'') (\<lambda>body.
        bindE (py_str body) (\<lambda>b.
          if py_eq lang (PyStr ''internal'') then Inr (''$$'' @ b @ ''$$'')
          else Inr (''$_$'' @ b @ ''$_$'')))))"

definition create_volat :: "pyinst \<Rightarrow> py_error + string" where
  "create_volat self =
     (if hasattr self ''volatility''
      then bindE (VOLATILITY_TYPES (getattr_default self ''volatility'')) (\<lambda>s. Inr ('' '' @ upper s))
      else Inr [])"

definition create_leakproof :: "pyinst \<Rightarrow> string" where
  "create_leakproof self =
     (if attrs self ''leakproof'' = Some (PyBool True) then '' LEAKPROOF'' else [])"

definition create_strict :: "pyinst \<Rightarrow> string" where
  "create_strict self =
     (if hasattr self ''strict'' \<and> py_truthy (getattr_default self ''strict'')
      then '' STRICT'' else [])"

definition create_secdef :: "pyinst \<Rightarrow> string" where
  "create_secdef self =
     (if hasattr self ''security_definer'' \<and> py_truthy (getattr_default self ''security_definer'')
      then '' SECURITY DEFINER'' else [])"

definition create_config :: "pyinst \<Rightarrow> py_error + string" where
  "create_config self =
     (if hasattr self ''configuration''
      then bindE (py_index0 (getattr_default self ''configuration'')) (\<lambda>c.
           bindE (py_str c) (\<lambda>s. Inr ('' SET '' @ s)))
      else Inr [])"

definition create_cost :: "pyinst \<Rightarrow> py_error + string" where
  "create_cost self =
     (if hasattr self ''cost'' \<and> \<not> py_eq (getattr_default self ''cost'') (PyInt 0)
      then bindE (getattr self ''language'') (\<lambda>lang.
           if py_in lang [PyStr ''c'', PyStr ''internal'']
           then (if \<not> py_eq (getattr_default self ''cost'') (PyInt 1)
                 then bindE (py_str (getattr_default self ''cost'')) (\<lambda>s. Inr ('' COST '' @ s))
                 else Inr [])
           else (if \<not> py_eq (getattr_default self ''cost'') (PyInt 100)
                 then bindE (py_str (getattr_default self ''cost'')) (\<lambda>s. Inr ('' COST '' @ s))
                 else Inr []))
      else Inr [])"

definition create_rows :: "pyinst \<Rightarrow> py_error + string" where
  "create_rows self =
     (if hasattr self ''rows'' \<and> \<not> py_eq (getattr_default self ''rows'') (PyInt 0)
      then (if \<not> py_eq (getattr_default self ''rows'') (PyInt 1000)
            then bindE (py_str (getattr_default self ''rows'')) (\<lambda>s. Inr ('' ROWS '' @ s))
            else Inr [])
      else Inr [])"

text \<open>
  The shell type: \<open>t._shell_created = True\<close> is written into the type object that every
  defining function shares, so the store is threaded through. \<open>qualname\<close> is the
  inherited \<open>DbSchemaObject.qualname\<close>, a parameter.
\<close>

definition create_shell ::
  "(pyinst \<Rightarrow> string) \<Rightarrow> pyinst \<Rightarrow> heap \<Rightarrow> (py_error + string list) \<times> heap" where
  "create_shell qualname self h =
     (case getattr_default self ''_defining'' of
        PyNone \<Rightarrow> (Inr [], h)
      | PyObj t \<Rightarrow>
          if \<not> hasattr (h t) ''_shell_created''
          then (let h' = h(t := setattr (h t) ''_shell_created'' (PyBool True))
                in (Inr [''CREATE TYPE '' @ qualname (h' t)], h'))
          else (Inr [], h)
      | _ \<Rightarrow> (Inl AttributeError, h))"

definition create_function_stmt ::
  "(pyinst \<Rightarrow> string) \<Rightarrow> pyinst \<Rightarrow> pyval \<Rightarrow>
   string \<Rightarrow> string \<Rightarrow> string \<Rightarrow> string \<Rightarrow> string \<Rightarrow> string \<Rightarrow> string \<Rightarrow> string \<Rightarrow>
   py_error + string" where
  "create_function_stmt qualname self newsrc src volat leakproof strict secdef config cost rows =
     bindE (if hasattr self ''allargs'' then getattr self ''allargs''
            else getattr self ''arguments'') (\<lambda>args.
     bindE (getattr self ''returns'') (\<lambda>returns.
     bindE (getattr self ''language'') (\<lambda>language.
     bindE (py_str args) (\<lambda>a.
     bindE (py_str returns) (\<lambda>r.
     bindE (py_str language) (\<lambda>l.
       Inr (''CREATE'' @ (if py_truthy newsrc then '' OR REPLACE'' else []) @ '' FUNCTION '' @
            qualname self @ ''('' @ a @ '') RETURNS '' @ r @ [CHR 0x0A] @ ''    LANGUAGE '' @ l @
            volat @ leakproof @ strict @ secdef @ cost @ rows @ config @
            [CHR 0x0A] @ ''    AS '' @ src)))))))"

text \<open>
  \<open>Function.create\<close>, the body under the decorators. An exception raised after the
  shell was marked leaves the mark in the store.
\<close>

definition Function_create ::
  "(pyinst \<Rightarrow> string) \<Rightarrow> pyinst \<Rightarrow> pyval \<Rightarrow> heap \<Rightarrow> (py_error + string list) \<times> heap" where
  "Function_create qualname self newsrc h =
     (case bindE (create_src self newsrc) (\<lambda>src.
           bindE (create_volat self) (\<lambda>volat.
           bindE (create_config self) (\<lambda>config.
           bindE (create_cost self) (\<lambda>cost.
           bindE (create_rows self) (\<lambda>rows.
             Inr (src, volat, config, cost, rows)))))) of
        Inl e \<Rightarrow> (Inl e, h)
      | Inr (src, volat, config, cost, rows) \<Rightarrow>
          (case create_shell qualname self h of
             (Inl e, h') \<Rightarrow> (Inl e, h')
           | (Inr stmts, h') \<Rightarrow>
               (case create_function_stmt qualname self newsrc src volat
                       (create_leakproof self) (create_strict self) (create_secdef self)
                       config cost rows of
                  Inl e \<Rightarrow> (Inl e, h')
                | Inr s \<Rightarrow> (Inr (stmts @ [s]), h'))))"

text \<open>
  A sequence of \<open>create\<close> calls, each with its \<open>newsrc\<close> argument, on one store; an
  exception ends the sequence.
\<close>

fun create_all ::
  "(pyinst \<Rightarrow> string) \<Rightarrow> (pyinst \<times> pyval) list \<Rightarrow> heap \<Rightarrow>
   (py_error + string list list) \<times> heap" where
  "create_all qualname [] h = (Inr [], h)"
| "create_all qualname ((self, newsrc) # calls) h =
     (case Function_create qualname self newsrc h of
        (Inl e, h') \<Rightarrow> (Inl e, h')
      | (Inr stmts, h') \<Rightarrow>
          (case create_all qualname calls h' of
             (Inl e, h'') \<Rightarrow> (Inl e, h'')
           | (Inr rest, h'') \<Rightarrow> (Inr (stmts # rest), h'')))"

section \<open>Function.alter\<close>

text \<open>
  Modelled from the spec: the decorators \<open>commentable\<close>, \<open>grantable\<close> and \<open>ownable\<close>
  are defined in \<open>pyrseas/dbobject/__init__.py\<close>. The spec says that rendering produces
  the statement text "plus any trailing statements implied by its capabilities
  (comment-setting, owner-setting, privilege grants), appended only for capabilities the
  kind actually has": the decorated method returns the statements of the body followed by
  the trailing statements of the object, which are a parameter.
\<close>

definition decorated ::
  "(pyinst \<Rightarrow> string list) \<Rightarrow> pyinst \<Rightarrow> (py_error + string list) \<times> 'h \<Rightarrow>
   (py_error + string list) \<times> 'h" where
  "decorated trailing self r =
     (case r of (Inl e, h) \<Rightarrow> (Inl e, h) | (Inr stmts, h) \<Rightarrow> (Inr (stmts @ trailing self), h))"

text \<open>\<open>Proc.identifier\<close>.\<close>

definition Proc_identifier :: "(pyinst \<Rightarrow> string) \<Rightarrow> pyinst \<Rightarrow> py_error + string" where
  "Proc_identifier qualname self =
     bindE (getattr self ''arguments'') (\<lambda>arguments.
     bindE (py_str arguments) (\<lambda>a. Inr (qualname self @ ''('' @ a @ '')'')))"

text \<open>
  \<open>Function.alter\<close>. \<open>super(Function, self).alter(infunction, no_owner=no_owner)\<close> is
  defined in \<open>pyrseas/dbobject/__init__.py\<close> and is a parameter.
\<close>

definition alter_source ::
  "(pyinst \<Rightarrow> string) \<Rightarrow> (pyinst \<Rightarrow> string list) \<Rightarrow> pyinst \<Rightarrow> pyinst \<Rightarrow> heap \<Rightarrow>
   (py_error + stmt list) \<times> heap" where
  "alter_source qualname trailing self infunction h =
     (if hasattr self ''source'' \<and> hasattr infunction ''source''
      then (if \<not> py_eq (getattr_default self ''source'') (getattr_default infunction ''source'')
            then (case decorated trailing self
                         (Function_create qualname self (getattr_default infunction ''source'') h) of
                    (Inl e, h') \<Rightarrow> (Inl e, h')
                  | (Inr stmts, h') \<Rightarrow> (Inr [L (map S stmts)], h'))
            else (Inr [], h))
      else (Inr [], h))"

definition alter_leakproof ::
  "(pyinst \<Rightarrow> string) \<Rightarrow> pyinst \<Rightarrow> pyinst \<Rightarrow> py_error + stmt list" where
  "alter_leakproof qualname self infunction =
     (if attrs self ''leakproof'' = Some (PyBool True)
      then (if attrs infunction ''leakproof'' = Some (PyBool True)
            then bindE (Proc_identifier qualname self) (\<lambda>i.
                   Inr [S (''ALTER FUNCTION '' @ i @ '' LEAKPROOF'')])
            else bindE (Proc_identifier qualname self) (\<lambda>i.
                   Inr [S (''ALTER FUNCTION '' @ i @ '' NOT LEAKPROOF'')]))
      else if attrs infunction ''leakproof'' = Some (PyBool True)
      then Inr [S (''ALTER FUNCTION '' @ qualname self @ '' LEAKPROOF'')]
      else Inr [])"

definition Function_alter ::
  "(pyinst \<Rightarrow> string) \<Rightarrow> (pyinst \<Rightarrow> string list) \<Rightarrow> (pyinst \<Rightarrow> pyinst \<Rightarrow> stmt list) \<Rightarrow>
   pyinst \<Rightarrow> pyinst \<Rightarrow> heap \<Rightarrow> (py_error + stmt list) \<times> heap" where
  "Function_alter qualname trailing super_alter self infunction h =
     (case alter_source qualname trailing self infunction h of
        (Inl e, h') \<Rightarrow> (Inl e, h')
      | (Inr s1, h') \<Rightarrow>
          (case alter_leakproof qualname self infunction of
             Inl e \<Rightarrow> (Inl e, h')
           | Inr s2 \<Rightarrow> (Inr (s1 @ s2 @ [L (super_alter self infunction)]), h')))"

section \<open>Function.get_deps\<close>

text \<open>
  The inner loop over \<open>('input', 'output', 'send', 'receive')\<close>: does the type \<open>dep\<close>
  name this function as one of its converters?
\<close>

definition designates :: "(pyinst \<Rightarrow> string) \<Rightarrow> pyinst \<Rightarrow> pyinst \<Rightarrow> bool" where
  "designates qualname self dep =
     list_ex (\<lambda>attr. py_truthy (getattr_default dep attr) \<and>
                     py_eq (getattr_default dep attr) (PyStr (qualname self)))
       [''input'', ''output'', ''send'', ''receive'']"

text \<open>
  \<open>for dep in list(deps)\<close>: the list is the set \<open>deps\<close> in the order Python iterates
  it; the loop removes from the set and overwrites \<open>self._defining\<close>. Dependencies are
  references into the store.
\<close>

fun get_deps_loop ::
  "(pyinst \<Rightarrow> string) \<Rightarrow> heap \<Rightarrow> ref list \<Rightarrow> ref set \<times> pyinst \<Rightarrow> ref set \<times> pyinst" where
  "get_deps_loop qualname h [] (deps, self) = (deps, self)"
| "get_deps_loop qualname h (dep # rest) (deps, self) =
     get_deps_loop qualname h rest
       (if cls (h dep) = DbTypeClass \<and> designates qualname self (h dep)
        then (deps - {dep}, setattr self ''_defining'' (PyObj dep))
        else (deps, self))"

text \<open>
  \<open>Function.get_deps\<close>; \<open>super_deps\<close> lists what \<open>super(Function, self).get_deps(db)\<close>
  returned.
\<close>

definition Function_get_deps ::
  "(pyinst \<Rightarrow> string) \<Rightarrow> heap \<Rightarrow> ref list \<Rightarrow> pyinst \<Rightarrow> ref set \<times> pyinst" where
  "Function_get_deps qualname h super_deps self =
     get_deps_loop qualname h super_deps (set super_deps, self)"

section \<open>Function.drop\<close>

text \<open>
  \<open>super(Function, self).drop()\<close> is defined in \<open>pyrseas/dbobject/__init__.py\<close>
  and is a parameter here.
\<close>

definition Function_drop :: "(pyinst \<Rightarrow> 'r list) \<Rightarrow> pyinst \<Rightarrow> 'r list" where
  "Function_drop super_drop self =
     (if py_truthy (getattr_default self ''_defining'') then [] else super_drop self)"

section \<open>More string and container operations\<close>

text \<open>\<open>s.startswith(p)\<close>.\<close>

definition startswith :: "string \<Rightarrow> string \<Rightarrow> bool" where
  "startswith s p = (take (length p) s = p)"

text \<open>The positions where \<open>sub\<close> occurs in \<open>s\<close>, in increasing order.\<close>

definition occurrences :: "string \<Rightarrow> string \<Rightarrow> nat list" where
  "occurrences s sub = filter (\<lambda>i. startswith (drop i s) sub) [0..<Suc (length s)]"

text \<open>\<open>s.find(sub)\<close> and \<open>s.rfind(sub)\<close>, with None for Python's -1; \<open>sub in s\<close>.\<close>

definition str_find :: "string \<Rightarrow> string \<Rightarrow> nat option" where
  "str_find s sub = (case occurrences s sub of [] \<Rightarrow> None | i # _ \<Rightarrow> Some i)"


definition str_contains :: "string \<Rightarrow> string \<Rightarrow> bool" where
  "str_contains s sub = (occurrences s sub \<noteq> [])"

text \<open>\<open>s.partition(sep)\<close>.\<close>

definition str_partition :: "string \<Rightarrow> string \<Rightarrow> string \<times> string \<times> string" where
  "str_partition s sep =
     (case str_find s sep of
        None \<Rightarrow> (s, [], [])
      | Some i \<Rightarrow> (take i s, sep, drop (i + length sep) s))"

text \<open>\<open>sep.join(l)\<close> on strings.\<close>

fun str_join :: "string \<Rightarrow> string list \<Rightarrow> string" where
  "str_join sep [] = []"
| "str_join sep [x] = x"
| "str_join sep (x # y # r) = x @ sep @ str_join sep (y # r)"

text \<open>
  \<open>s.replace(old, new)\<close> for a non-empty \<open>old\<close>: \<open>k\<close> counts the characters of a
  replaced occurrence that are still to be skipped.
\<close>

fun replace_from :: "string \<Rightarrow> string \<Rightarrow> nat \<Rightarrow> string \<Rightarrow> string" where
  "replace_from old new k [] = []"
| "replace_from old new k (c # cs) =
     (if 0 < k then replace_from old new (k - 1) cs
      else if startswith (c # cs) old then new @ replace_from old new (length old - 1) cs
      else c # replace_from old new 0 cs)"

definition str_replace :: "string \<Rightarrow> string \<Rightarrow> string \<Rightarrow> string" where
  "str_replace s old new = replace_from old new 0 s"

text \<open>The strings a value yields when \<open>str.join\<close> iterates it.\<close>

fun is_PyStr :: "pyval \<Rightarrow> bool" where
  "is_PyStr (PyStr s) = True"
| "is_PyStr _ = False"

fun the_PyStr :: "pyval \<Rightarrow> string" where
  "the_PyStr (PyStr s) = s"
| "the_PyStr _ = []"

fun py_join_items :: "pyval \<Rightarrow> py_error + string list" where
  "py_join_items (PyList l) = (if list_all is_PyStr l then Inr (map the_PyStr l) else Inl TypeError)"
| "py_join_items (PyStr s) = Inr (map (\<lambda>c. [c]) s)"
| "py_join_items _ = Inl TypeError"

text \<open>\<open>x in v\<close> for a list or a string \<open>v\<close>.\<close>

fun py_contains :: "pyval \<Rightarrow> pyval \<Rightarrow> py_error + bool" where
  "py_contains (PyList l) x = Inr (list_ex (py_eq x) l)"
| "py_contains (PyStr s) x = (case x of PyStr sub \<Rightarrow> Inr (str_contains s sub) | _ \<Rightarrow> Inl TypeError)"
| "py_contains _ x = Inl TypeError"

text \<open>\<open>set(v)\<close>, as the list of its elements; a list is not hashable.\<close>

fun is_PyList :: "pyval \<Rightarrow> bool" where
  "is_PyList (PyList l) = True"
| "is_PyList _ = False"

fun py_set :: "pyval \<Rightarrow> py_error + pyval list" where
  "py_set (PyList l) = (if list_ex is_PyList l then Inl TypeError else Inr l)"
| "py_set (PyStr s) = Inr (map (\<lambda>c. PyStr [c]) s)"
| "py_set _ = Inl TypeError"

definition py_set_eq :: "pyval list \<Rightarrow> pyval list \<Rightarrow> bool" where
  "py_set_eq a b = (list_all (\<lambda>x. list_ex (py_eq x) b) a \<and> list_all (\<lambda>y. list_ex (py_eq y) a) b)"

section \<open>Trigger\<close>

text \<open>
  \<open>Trigger.identifier\<close>. \<open>quote_id\<close> is imported from \<open>pyrseas.dbobject\<close> and is a
  parameter, as the inherited \<open>qualname\<close> is; \<open>self._table\<close> refers to the table object.
\<close>

definition Trigger_identifier ::
  "(pyval \<Rightarrow> string) \<Rightarrow> (pyinst \<Rightarrow> string) \<Rightarrow> heap \<Rightarrow> pyinst \<Rightarrow> py_error + string" where
  "Trigger_identifier quote_id qualname h self =
     bindE (getattr self ''name'') (\<lambda>name.
     bindE (getattr self ''_table'') (\<lambda>t.
       case t of PyObj r \<Rightarrow> Inr (quote_id name @ '' ON '' @ qualname (h r))
               | _ \<Rightarrow> Inl AttributeError))"

text \<open>The parts of the CREATE TRIGGER statement, one definition per local variable.\<close>

definition trigger_constr :: "pyinst \<Rightarrow> string" where
  "trigger_constr self =
     (if hasattr self ''constraint'' \<and> py_truthy (getattr_default self ''constraint'')
      then ''CONSTRAINT '' else [])"

definition trigger_defer :: "pyinst \<Rightarrow> string" where
  "trigger_defer self =
     (if hasattr self ''constraint'' \<and> py_truthy (getattr_default self ''constraint'')
      then (let d1 = (if hasattr self ''deferrable'' \<and> py_truthy (getattr_default self ''deferrable'')
                      then ''DEFERRABLE '' else []);
                d2 = d1 @ (if hasattr self ''initially_deferred'' \<and>
                              py_truthy (getattr_default self ''initially_deferred'')
                           then ''INITIALLY DEFERRED'' else [])
            in if d2 \<noteq> [] then [CHR 0x0A] @ ''    '' @ d2 else d2)
      else [])"

definition trigger_evts :: "pyinst \<Rightarrow> py_error + string" where
  "trigger_evts self =
     bindE (getattr self ''events'') (\<lambda>events.
     bindE (py_join_items events) (\<lambda>es.
       if hasattr self ''columns''
       then bindE (py_contains events (PyStr ''update'')) (\<lambda>upd.
              if upd
              then bindE (py_join_items (getattr_default self ''columns'')) (\<lambda>cols.
                     Inr (str_replace (upper (str_join '' OR '' es)) ''UPDATE''
                            (''UPDATE OF '' @ str_join '', '' cols)))
              else Inr (upper (str_join '' OR '' es)))
       else Inr (upper (str_join '' OR '' es))))"

definition trigger_cond :: "pyinst \<Rightarrow> py_error + string" where
  "trigger_cond self =
     (if hasattr self ''condition''
      then bindE (py_str (getattr_default self ''condition'')) (\<lambda>c.
             Inr ([CHR 0x0A] @ ''    WHEN ('' @ c @ '')''))
      else Inr [])"

text \<open>\<open>Trigger.create\<close>, the body under \<open>commentable\<close>.\<close>

definition Trigger_create ::
  "(pyval \<Rightarrow> string) \<Rightarrow> (pyinst \<Rightarrow> string) \<Rightarrow> heap \<Rightarrow> pyinst \<Rightarrow> py_error + string list" where
  "Trigger_create quote_id qualname h self =
     bindE (trigger_evts self) (\<lambda>evts.
     bindE (trigger_cond self) (\<lambda>cond.
     bindE (getattr self ''name'') (\<lambda>name.
     bindE (getattr self ''timing'') (\<lambda>timing.
     bindE (py_upper timing) (\<lambda>tm.
     bindE (getattr self ''_table'') (\<lambda>t.
     bindE (case t of PyObj r \<Rightarrow> Inr (qualname (h r)) | _ \<Rightarrow> Inl AttributeError) (\<lambda>tbl.
     bindE (getattr self ''level'') (\<lambda>level.
     bindE (py_upper level) (\<lambda>lv.
     bindE (getattr self ''procedure'') (\<lambda>procedure.
     bindE (py_str procedure) (\<lambda>pr.
       Inr [''CREATE '' @ trigger_constr self @ ''TRIGGER '' @ quote_id name @ [CHR 0x0A] @
            ''    '' @ tm @ '' '' @ evts @ '' ON '' @ tbl @ trigger_defer self @ [CHR 0x0A] @
            ''    FOR EACH '' @ lv @ cond @ [CHR 0x0A] @
            ''    EXECUTE PROCEDURE '' @ pr])))))))))))"

text \<open>\<open>Trigger.diff_map\<close>: the loop over the compared attributes.\<close>

definition diff_attr_names :: "string list" where
  "diff_attr_names = [''constraint'', ''deferrable'', ''initially_deferred'',
                      ''update'', ''condition'', ''procedure'', ''timing'', ''level'']"

fun diff_attrs :: "string list \<Rightarrow> pyinst \<Rightarrow> bool \<times> pyinst \<Rightarrow> bool \<times> pyinst" where
  "diff_attrs [] intrg (same, self) = (same, self)"
| "diff_attrs (attr # rest) intrg (same, self) =
     diff_attrs rest intrg
       (if \<not> py_eq (getattr_default self attr) (getattr_default intrg attr)
        then (False, setattr self attr (getattr_default intrg attr))
        else (same, self))"

text \<open>\<open>if set(self.events) != set(intrg.events)\<close>.\<close>

definition diff_events :: "pyinst \<Rightarrow> bool \<times> pyinst \<Rightarrow> py_error + bool \<times> pyinst" where
  "diff_events intrg p =
     (case p of (same, self) \<Rightarrow>
        bindE (getattr self ''events'') (\<lambda>e1.
        bindE (py_set e1) (\<lambda>s1.
        bindE (getattr intrg ''events'') (\<lambda>e2.
        bindE (py_set e2) (\<lambda>s2.
          if \<not> py_set_eq s1 s2 then Inr (False, setattr self ''events'' e2)
          else Inr (same, self))))))"

text \<open>
  \<open>Trigger.diff_map\<close>. It overwrites attributes of \<open>self\<close>, so the trigger is returned
  with the statements. \<open>diff_privileges\<close> and \<open>diff_description\<close> are inherited from
  \<open>pyrseas/dbobject/__init__.py\<close> and are parameters.
\<close>

definition Trigger_diff_map ::
  "(pyval \<Rightarrow> string) \<Rightarrow> (pyinst \<Rightarrow> string) \<Rightarrow> (pyinst \<Rightarrow> string list) \<Rightarrow>
   (pyinst \<Rightarrow> pyinst \<Rightarrow> stmt list) \<Rightarrow> (pyinst \<Rightarrow> pyinst \<Rightarrow> stmt list) \<Rightarrow>
   heap \<Rightarrow> pyinst \<Rightarrow> pyinst \<Rightarrow> (py_error + stmt list) \<times> pyinst" where
  "Trigger_diff_map quote_id qualname trailing diff_privileges diff_description h self intrg =
     (case diff_events intrg (diff_attrs diff_attr_names intrg (True, self)) of
        Inl e \<Rightarrow> (Inl e, snd (diff_attrs diff_attr_names intrg (True, self)))
      | Inr (same, self') \<Rightarrow>
          (case (if \<not> same
                 then bindE (Trigger_identifier quote_id qualname h self') (\<lambda>i.
                      bindE (fst (decorated trailing self'
                                    (Trigger_create quote_id qualname h self', ()))) (\<lambda>c.
                        Inr [S (''DROP TRIGGER '' @ i), L (map S c)]))
                 else Inr []) of
             Inl e \<Rightarrow> (Inl e, self')
           | Inr stmts \<Rightarrow>
               (Inr (stmts @ [L (diff_privileges self' intrg), L (diff_description self' intrg)]),
                self')))"

text \<open>
  \<open>Trigger.get_implied_deps\<close>. \<open>super_deps\<close> is what the inherited method returned,
  \<open>tables\<close> and \<open>functions\<close> are the dictionaries of \<open>db\<close>, and \<open>split_schema_obj\<close> is
  imported from \<open>pyrseas.dbobject\<close>; all are parameters.
\<close>

definition Trigger_get_implied_deps ::
  "(pyval \<Rightarrow> pyval \<Rightarrow> py_error + string \<times> string) \<Rightarrow> (pyval \<times> pyval \<rightharpoonup> ref) \<Rightarrow>
   (string \<times> string \<times> string \<rightharpoonup> ref) \<Rightarrow> ref set \<Rightarrow> pyinst \<Rightarrow> py_error + ref set" where
  "Trigger_get_implied_deps split_schema_obj tables functions super_deps self =
     bindE (getattr self ''schema'') (\<lambda>schema.
     bindE (getattr self ''table'') (\<lambda>table.
       case tables (schema, table) of
         None \<Rightarrow> Inl (KeyError ''tables'')
       | Some t \<Rightarrow>
           if hasattr self ''_iscfg'' then Inr (insert t super_deps)
           else
             bindE (getattr self ''procedure'') (\<lambda>procedure.
             bindE (split_schema_obj procedure schema) (\<lambda>(fschema, fname).
               if \<not> startswith fname ''tsvector_update_trigger''
               then (case functions (fschema, fname, []) of
                       None \<Rightarrow> Inl (KeyError ''functions'')
                     | Some f \<Rightarrow> Inr (insert f (insert t super_deps)))
               else Inr (insert t super_deps)))))"

section \<open>Proc.extern_key and ProcDict.from_map\<close>

text \<open>\<open>s[a:b]\<close> for indices that are not negative.\<close>

definition slice :: "string \<Rightarrow> nat \<Rightarrow> nat \<Rightarrow> string" where
  "slice s a b = drop a (take b s)"



text \<open>
  The first lines of the loop body of \<open>ProcDict.from_map\<close>: the key is split into the
  kind word, the name and the arguments.
\<close>

definition parse_proc_key :: "string \<Rightarrow> py_error + string \<times> string \<times> string" where
  "parse_proc_key key =
     (case str_partition key '' '' of (objtype, spc, fnc) \<Rightarrow>
        if spc \<noteq> '' '' \<or> objtype \<notin> set [''function'', ''aggregate'']
        then Inl (KeyError (''Unrecognized object type: '' @ key))
        else (case str_find fnc ''('' of
                None \<Rightarrow> Inl (KeyError (''Invalid function signature: '' @ fnc))
              | Some paren \<Rightarrow>
                  if drop (length fnc - 1) fnc \<noteq> '')''
                  then Inl (KeyError (''Invalid function signature: '' @ fnc))
                  else Inr (objtype, take paren fnc, slice fnc (paren + 1) (length fnc - 1))))"

text \<open>
  \<open>setattr(func, attr, value)\<close> on a function or an aggregate: \<open>allprivs\<close> is a
  property without a setter, and so is the inherited \<open>objtype\<close>.
\<close>

definition proc_setattr :: "pyinst \<Rightarrow> string \<Rightarrow> pyval \<Rightarrow> py_error + pyinst" where
  "proc_setattr func attr v =
     (if attr = ''allprivs'' \<or> attr = ''objtype'' then Inl AttributeError
      else Inr (setattr func attr v))"

text \<open>\<open>for attr in infunc: setattr(func, attr, infunc[attr])\<close>, the dictionary as the
  list of its items.\<close>

fun proc_setattrs :: "pyinst \<Rightarrow> (string \<times> pyval) list \<Rightarrow> py_error + pyinst" where
  "proc_setattrs func [] = Inr func"
| "proc_setattrs func ((attr, v) # rest) =
     bindE (proc_setattr func attr v) (\<lambda>func'. proc_setattrs func' rest)"

text \<open>\<open>func.volatility = func.volatility[:1].lower()\<close>.\<close>

definition proc_volatility :: "pyinst \<Rightarrow> py_error + pyinst" where
  "proc_volatility func =
     (if hasattr func ''volatility''
      then (case getattr_default func ''volatility'' of
              PyStr s \<Rightarrow> Inr (setattr func ''volatility'' (PyStr (lower (take 1 s))))
            | PyList l \<Rightarrow> Inl AttributeError
            | _ \<Rightarrow> Inl TypeError)
      else Inr func)"

text \<open>The check that a function has a source or an object file, and not both.\<close>

definition proc_check_source :: "string \<Rightarrow> pyinst \<Rightarrow> py_error + pyinst" where
  "proc_check_source fnc func =
     (if cls func = FunctionClass \<and>
         ((hasattr func ''source'' \<and> hasattr func ''obj_file'') \<or>
          \<not> (hasattr func ''source'' \<or> hasattr func ''obj_file''))
      then Inl (ValueError (''Function '' @ [CHR 0x27] @ fnc @ [CHR 0x27] @
                            '': either source or obj_file must be specified''))
      else Inr func)"

text \<open>
  The privileges; \<open>privileges_from_map\<close> is defined in \<open>pyrseas/dbobject/privileges.py\<close>
  and is a parameter. \<open>func.allprivs\<close> is \<open>'X'\<close>.
\<close>

definition proc_privileges ::
  "(pyval \<Rightarrow> string \<Rightarrow> pyval \<Rightarrow> py_error + pyval) \<Rightarrow> (string \<times> pyval) list \<Rightarrow> pyinst \<Rightarrow>
   py_error + pyinst" where
  "proc_privileges privileges_from_map infunc func =
     (case map_of infunc ''privileges'' of
        None \<Rightarrow> Inr func
      | Some privs \<Rightarrow>
          bindE (getattr func ''owner'') (\<lambda>owner.
          bindE (privileges_from_map privs ''X'' owner) (\<lambda>p.
            Inr (setattr func ''privileges'' p))))"

text \<open>
  The body of the loop of \<open>ProcDict.from_map\<close> for one key: \<open>schema_name\<close> is
  \<open>schema.name\<close>, \<open>infunc\<close> is \<open>infuncs[key]\<close>, None or the items of a dictionary. The
  inherited constructor stores its keyword arguments as attributes.
\<close>

definition ProcDict_from_map_entry ::
  "(pyval \<Rightarrow> string \<Rightarrow> pyval \<Rightarrow> py_error + pyval) \<Rightarrow> pyval \<Rightarrow> string \<Rightarrow>
   (string \<times> pyval) list option \<Rightarrow> py_error + pyinst" where
  "ProcDict_from_map_entry privileges_from_map schema_name key infunc =
     bindE (parse_proc_key key) (\<lambda>(objtype, fnc, arguments).
       let func = (if objtype = ''function''
                   then \<lparr>cls = FunctionClass,
                         attrs = [''schema'' \<mapsto> schema_name, ''name'' \<mapsto> PyStr fnc,
                                  ''arguments'' \<mapsto> PyStr arguments]\<rparr>
                   else \<lparr>cls = AggregateClass,
                         attrs = [''schema'' \<mapsto> schema_name, ''name'' \<mapsto> PyStr fnc,
                                  ''arguments'' \<mapsto> PyStr arguments,
                                  ''language'' \<mapsto> PyStr ''internal'']\<rparr>)
       in case infunc of
            None \<Rightarrow> Inl (ValueError (''Function '' @ [CHR 0x27] @ fnc @ [CHR 0x27] @
                                     '' has no specification''))
          | Some items \<Rightarrow>
              if items = []
              then Inl (ValueError (''Function '' @ [CHR 0x27] @ fnc @ [CHR 0x27] @
                                    '' has no specification''))
              else bindE (proc_setattrs func items) (\<lambda>func1.
                   bindE (proc_volatility func1) (\<lambda>func2.
                   bindE (proc_check_source fnc func2) (\<lambda>func3.
                     proc_privileges privileges_from_map items func3))))"

text \<open>
  \<open>ProcDict.from_map\<close>: the loop over the keys of \<open>infuncs\<close>. The dictionary is
  filled under \<open>(schema.name, fnc, arguments)\<close>, the name and the arguments as they were
  split from the key. An exception ends the loop.
\<close>

fun ProcDict_from_map ::
  "(pyval \<Rightarrow> string \<Rightarrow> pyval \<Rightarrow> py_error + pyval) \<Rightarrow> pyval \<Rightarrow>
   (string \<times> (string \<times> pyval) list option) list \<Rightarrow>
   (pyval \<times> string \<times> string \<rightharpoonup> pyinst) \<Rightarrow> py_error + (pyval \<times> string \<times> string \<rightharpoonup> pyinst)" where
  "ProcDict_from_map privileges_from_map schema_name [] dict = Inr dict"
| "ProcDict_from_map privileges_from_map schema_name ((key, infunc) # rest) dict =
     bindE (parse_proc_key key) (\<lambda>(objtype, fnc, arguments).
     bindE (ProcDict_from_map_entry privileges_from_map schema_name key infunc) (\<lambda>func.
       ProcDict_from_map privileges_from_map schema_name rest
         (dict((schema_name, fnc, arguments) \<mapsto> func))))"

section \<open>OperatorFamily.extern_key and OperatorFamilyDict.from_map\<close>





section \<open>Example objects\<close>

text \<open>
  A stand-in for the inherited \<open>qualname\<close> in the examples: the \<open>name\<close> attribute,
  the qualified name of an object of schema \<open>public\<close>.
\<close>

definition name_qualname :: "pyinst \<Rightarrow> string" where
  "name_qualname x = (case attrs x ''name'' of Some (PyStr s) \<Rightarrow> s | _ \<Rightarrow> [])"

text \<open>
  A store with the language \<open>sql\<close> at reference 3 and, at every other reference, a type
  whose input function is \<open>conv\<close>; and the function \<open>conv\<close>.
\<close>

definition conv_heap :: heap where
  "conv_heap r =
     (if r = 3 then \<lparr>cls = OtherClass, attrs = [''name'' \<mapsto> PyStr ''sql'']\<rparr>
      else \<lparr>cls = DbTypeClass, attrs = [''name'' \<mapsto> PyStr ''t'', ''input'' \<mapsto> PyStr ''conv'']\<rparr>)"

definition conv_function :: pyinst where
  "conv_function =
     \<lparr>cls = FunctionClass,
      attrs = [''name'' \<mapsto> PyStr ''conv'', ''arguments'' \<mapsto> PyStr ''cstring'']\<rparr>"

text \<open>A leakproof function \<open>f(integer)\<close>, as read from the catalog or from a map.\<close>

definition leakproof_function :: pyinst where
  "leakproof_function =
     \<lparr>cls = FunctionClass,
      attrs = [''schema'' \<mapsto> PyStr ''public'', ''name'' \<mapsto> PyStr ''f'',
               ''arguments'' \<mapsto> PyStr ''integer'', ''returns'' \<mapsto> PyStr ''integer'',
               ''language'' \<mapsto> PyStr ''sql'', ''source'' \<mapsto> PyStr ''select 1'',
               ''volatility'' \<mapsto> PyStr ''i'', ''leakproof'' \<mapsto> PyBool True]\<rparr>"

text \<open>
  A row trigger on table \<open>t1\<close> (every reference of \<open>table_heap\<close> is that table), the
  same trigger with its events listed in the other order, and with another timing. The
  stand-in for \<open>quote_id\<close> returns a name that needs no quotes as it is.
\<close>

definition example_quote_id :: "pyval \<Rightarrow> string" where
  "example_quote_id v = the_PyStr v"

definition table_heap :: heap where
  "table_heap r = \<lparr>cls = TableClass, attrs = [''schema'' \<mapsto> PyStr ''public'', ''name'' \<mapsto> PyStr ''t1'']\<rparr>"

definition row_trigger :: "string list \<Rightarrow> string \<Rightarrow> pyinst" where
  "row_trigger events timing =
     \<lparr>cls = TriggerClass,
      attrs = [''schema'' \<mapsto> PyStr ''public'', ''table'' \<mapsto> PyStr ''t1'',
               ''name'' \<mapsto> PyStr ''tr1'', ''_table'' \<mapsto> PyObj 5,
               ''level'' \<mapsto> PyStr ''row'', ''procedure'' \<mapsto> PyStr ''f1()'',
               ''events'' \<mapsto> PyList (map PyStr events), ''timing'' \<mapsto> PyStr timing]\<rparr>"

text \<open>
  A database with the table \<open>public.t1\<close> at reference 5 and the function
  \<open>public.audit_proc()\<close> at reference 9, a stand-in for \<open>split_schema_obj\<close> on names
  without a schema, and a trigger on \<open>t1\<close> that executes \<open>audit_proc\<close>, either written
  by the user or added from the augmenter configuration (\<open>_iscfg\<close>).
\<close>

definition example_tables :: "pyval \<times> pyval \<rightharpoonup> ref" where
  "example_tables k = (if k = (PyStr ''public'', PyStr ''t1'') then Some 5 else None)"

definition example_functions :: "string \<times> string \<times> string \<rightharpoonup> ref" where
  "example_functions k = (if k = (''public'', ''audit_proc'', []) then Some 9 else None)"

definition example_split :: "pyval \<Rightarrow> pyval \<Rightarrow> py_error + string \<times> string" where
  "example_split obj sch =
     (if is_PyStr obj \<and> is_PyStr sch then Inr (the_PyStr sch, the_PyStr obj) else Inl TypeError)"

definition audit_trigger :: "bool \<Rightarrow> pyinst" where
  "audit_trigger iscfg =
     \<lparr>cls = TriggerClass,
      attrs = (if iscfg
               then [''schema'' \<mapsto> PyStr ''public'', ''table'' \<mapsto> PyStr ''t1'',
                     ''name'' \<mapsto> PyStr ''audit'', ''procedure'' \<mapsto> PyStr ''audit_proc'',
                     ''_iscfg'' \<mapsto> PyBool True]
               else [''schema'' \<mapsto> PyStr ''public'', ''table'' \<mapsto> PyStr ''t1'',
                     ''name'' \<mapsto> PyStr ''audit'', ''procedure'' \<mapsto> PyStr ''audit_proc''])\<rparr>"



text \<open>
  The row trigger with a WHEN condition, as read from the catalog, and a stand-in for
  \<open>privileges_from_map\<close> that keeps the privileges as they are written.
\<close>

definition when_trigger :: pyinst where
  "when_trigger =
     \<lparr>cls = TriggerClass,
      attrs = [''schema'' \<mapsto> PyStr ''public'', ''table'' \<mapsto> PyStr ''t1'',
               ''name'' \<mapsto> PyStr ''tr1'', ''_table'' \<mapsto> PyObj 5,
               ''level'' \<mapsto> PyStr ''row'', ''procedure'' \<mapsto> PyStr ''f1()'',
               ''events'' \<mapsto> PyList (map PyStr [''insert'', ''update'']),
               ''timing'' \<mapsto> PyStr ''before'', ''condition'' \<mapsto> PyStr ''new.c1 > 0'']\<rparr>"


section \<open>Theorems\<close>

text \<open>
  C3: a function marked as defining a type (its \<open>_defining\<close> attribute holds the type
  object) drops to the empty list of statements; a function without the mark (the
  attribute is missing or None) returns what the inherited drop returns.
\<close>

theorem C3_drop_defining:
  "(attrs f ''_defining'' = Some (PyObj t) \<longrightarrow> Function_drop super_drop f = []) \<and>
   ((attrs f ''_defining'' = None \<or> attrs f ''_defining'' = Some PyNone) \<longrightarrow>
      Function_drop super_drop f = super_drop f)"
  by (auto simp: Function_drop_def getattr_default_def)

theorem C3_drop_defining_witness:
  "Function_drop (\<lambda>f. [''DROP FUNCTION f()''])
     \<lparr>cls = FunctionClass, attrs = [''name'' \<mapsto> PyStr ''f'', ''_defining'' \<mapsto> PyObj 7]\<rparr> = [] \<and>
   Function_drop (\<lambda>f. [''DROP FUNCTION f()''])
     \<lparr>cls = FunctionClass, attrs = [''name'' \<mapsto> PyStr ''f'']\<rparr> = [''DROP FUNCTION f()'']"
  using C3_drop_defining [of "\<lparr>cls = FunctionClass, attrs = [''name'' \<mapsto> PyStr ''f'', ''_defining'' \<mapsto> PyObj 7]\<rparr>" 7 "\<lambda>f. [''DROP FUNCTION f()'']"]
    C3_drop_defining [of "\<lparr>cls = FunctionClass, attrs = [''name'' \<mapsto> PyStr ''f'']\<rparr>" 7 "\<lambda>f. [''DROP FUNCTION f()'']"]
  by simp

subsection \<open>Function.to_map and the clauses of Function.create\<close>

lemma bindE_simps [simp]: "bindE (Inl e) f = Inl e" "bindE (Inr x) f = f x"
  by (simp_all add: bindE_def)






















subsection \<open>Function.create and the shell type\<close>

lemma create_function_stmt_head:
  "create_function_stmt q f n src volat lp st sd cfg cost rows = Inr s \<Longrightarrow>
   take 8 s = ''CREATE F'' \<or> take 8 s = ''CREATE O''"
  by (auto simp: create_function_stmt_def bindE_def split: sum.splits if_splits)

lemma Function_create_shell_absent:
  assumes "attrs f ''_defining'' = Some (PyObj t)" "\<not> hasattr (h t) ''_shell_created''"
    "Function_create q f n h = (Inr st, h')"
  shows "\<exists>s. st = [''CREATE TYPE '' @ q (setattr (h t) ''_shell_created'' (PyBool True)), s] \<and>
     (take 8 s = ''CREATE F'' \<or> take 8 s = ''CREATE O'') \<and>
     h' = h(t := setattr (h t) ''_shell_created'' (PyBool True))"
  using assms
  by (auto simp: Function_create_def create_shell_def getattr_default_def Let_def
      dest: create_function_stmt_head split: sum.splits prod.splits)

lemma Function_create_shell_present:
  assumes "attrs f ''_defining'' = Some (PyObj t)" "hasattr (h t) ''_shell_created''"
    "Function_create q f n h = (Inr st, h')"
  shows "\<exists>s. st = [s] \<and> (take 8 s = ''CREATE F'' \<or> take 8 s = ''CREATE O'') \<and> h' = h"
  using assms
  by (auto simp: Function_create_def create_shell_def getattr_default_def Let_def
      dest: create_function_stmt_head split: sum.splits prod.splits)


lemma create_all_shell_present:
  assumes "\<forall>c \<in> set calls. attrs (fst c) ''_defining'' = Some (PyObj t)"
    "hasattr (h t) ''_shell_created''"
    "create_all q calls h = (Inr outs, h')"
  shows "\<exists>ss. outs = map (\<lambda>s. [s]) ss \<and>
     (\<forall>s \<in> set ss. take 8 s = ''CREATE F'' \<or> take 8 s = ''CREATE O'')"
  using assms
proof (induction calls arbitrary: outs)
  case Nil
  then show ?case by simp
next
  case (Cons c calls)
  obtain f n where c: "c = (f, n)" by (cases c)
  from Cons.prems(3) c obtain st h1 rest where
    st: "Function_create q f n h = (Inr st, h1)" and
    rest: "create_all q calls h1 = (Inr rest, h')" and
    outs: "outs = st # rest"
    by (auto split: sum.splits prod.splits)
  have def: "attrs f ''_defining'' = Some (PyObj t)" using Cons.prems(1) c by simp
  from Function_create_shell_present [OF def Cons.prems(2) st] obtain s where
    s: "st = [s]" "take 8 s = ''CREATE F'' \<or> take 8 s = ''CREATE O''" "h1 = h" by blast
  have "\<exists>ss. rest = map (\<lambda>s. [s]) ss \<and>
     (\<forall>s \<in> set ss. take 8 s = ''CREATE F'' \<or> take 8 s = ''CREATE O'')"
    using Cons.IH [of rest] Cons.prems(1,2) rest s(3) by simp
  then obtain ss where ss: "rest = map (\<lambda>s. [s]) ss"
     "\<forall>s \<in> set ss. take 8 s = ''CREATE F'' \<or> take 8 s = ''CREATE O''" by blast
  have "outs = map (\<lambda>s. [s]) (s # ss)" using outs s(1) ss(1) by simp
  moreover have "\<forall>x \<in> set (s # ss). take 8 x = ''CREATE F'' \<or> take 8 x = ''CREATE O''"
    using s(2) ss(2) by simp
  ultimately show ?case by blast
qed

text \<open>
  C4: take any sequence of \<open>create\<close> calls, all on functions marked as defining the
  type \<open>t\<close>, that starts with \<open>t\<close> not yet marked \<open>_shell_created\<close> and in which no
  call raises. The first call returns the statement \<open>CREATE TYPE <t>\<close> followed by its
  CREATE FUNCTION statement, every later call returns its CREATE FUNCTION statement alone,
  and \<open>CREATE TYPE <t>\<close> occurs exactly once in all the statements returned.
\<close>

theorem C4_shell_type_once:
  assumes defining: "\<forall>c \<in> set calls. attrs (fst c) ''_defining'' = Some (PyObj t)"
    and fresh: "\<not> hasattr (h t) ''_shell_created''"
    and nonempty: "calls \<noteq> []"
    and run: "create_all qualname calls h = (Inr outs, h')"
  shows "\<exists>s ss. outs =
        [''CREATE TYPE '' @ qualname (setattr (h t) ''_shell_created'' (PyBool True)), s] #
        map (\<lambda>x. [x]) ss \<and>
      ''CREATE TYPE '' @ qualname (setattr (h t) ''_shell_created'' (PyBool True)) \<notin> set (s # ss) \<and>
      count_list (concat outs)
        (''CREATE TYPE '' @ qualname (setattr (h t) ''_shell_created'' (PyBool True))) = 1"
proof -
  let ?shell = "''CREATE TYPE '' @ qualname (setattr (h t) ''_shell_created'' (PyBool True))"
  obtain c rest where calls: "calls = c # rest" using nonempty by (cases calls) auto
  obtain f n where c: "c = (f, n)" by (cases c)
  from run calls c obtain st h1 outs1 where
    st: "Function_create qualname f n h = (Inr st, h1)" and
    rest: "create_all qualname rest h1 = (Inr outs1, h')" and
    outs: "outs = st # outs1"
    by (auto split: sum.splits prod.splits)
  have def: "attrs f ''_defining'' = Some (PyObj t)" using defining calls c by simp
  from Function_create_shell_absent [OF def fresh st] obtain s where
    s: "st = [?shell, s]" "take 8 s = ''CREATE F'' \<or> take 8 s = ''CREATE O''"
       "h1 = h(t := setattr (h t) ''_shell_created'' (PyBool True))" by blast
  have marked: "hasattr (h1 t) ''_shell_created''"
    using s(3) by (simp add: hasattr_def setattr_def)
  have defrest: "\<forall>c \<in> set rest. attrs (fst c) ''_defining'' = Some (PyObj t)"
    using defining calls by simp
  from create_all_shell_present [OF defrest marked rest] obtain ss where
    ss: "outs1 = map (\<lambda>s. [s]) ss"
        "\<forall>s \<in> set ss. take 8 s = ''CREATE F'' \<or> take 8 s = ''CREATE O''" by blast
  have shell8: "take 8 ?shell = ''CREATE T''" by simp
  have notin: "?shell \<notin> set (s # ss)"
  proof
    assume "?shell \<in> set (s # ss)"
    then have "take 8 ?shell = ''CREATE F'' \<or> take 8 ?shell = ''CREATE O''"
      using s(2) ss(2) by auto
    then show False using shell8 by simp
  qed
  have eq: "outs = [?shell, s] # map (\<lambda>x. [x]) ss" using outs s(1) ss(1) by simp
  have cc: "concat (map (\<lambda>x. [x]) ss) = ss" by (induction ss) simp_all
  have "count_list (s # ss) ?shell = 0" using notin count_list_0_iff [of "s # ss" ?shell] by blast
  then have "count_list (concat outs) ?shell = 1" using eq cc by simp
  with eq notin show ?thesis by blast
qed


theorem C4_shell_type_once_witness:
  "create_all (\<lambda>x. case attrs x ''name'' of Some (PyStr s) \<Rightarrow> s | _ \<Rightarrow> [])
     [(\<lparr>cls = FunctionClass, attrs = [''name'' \<mapsto> PyStr ''t_in'', ''arguments'' \<mapsto> PyStr ''cstring'',
          ''returns'' \<mapsto> PyStr ''t'', ''language'' \<mapsto> PyStr ''c'', ''obj_file'' \<mapsto> PyStr ''tlib'',
          ''_defining'' \<mapsto> PyObj 0]\<rparr>, PyNone),
      (\<lparr>cls = FunctionClass, attrs = [''name'' \<mapsto> PyStr ''t_out'', ''arguments'' \<mapsto> PyStr ''t'',
          ''returns'' \<mapsto> PyStr ''cstring'', ''language'' \<mapsto> PyStr ''c'', ''obj_file'' \<mapsto> PyStr ''tlib'',
          ''_defining'' \<mapsto> PyObj 0]\<rparr>, PyNone)]
     (\<lambda>r. \<lparr>cls = DbTypeClass, attrs = [''name'' \<mapsto> PyStr ''t'']\<rparr>)
   = (Inr [[''CREATE TYPE t'',
            ''CREATE FUNCTION t_in(cstring) RETURNS t'' @ [CHR 0x0A] @ ''    LANGUAGE c'' @
              [CHR 0x0A] @ ''    AS '' @ [CHR 0x27] @ ''tlib'' @ [CHR 0x27] @ '', '' @
              [CHR 0x27] @ ''t_in'' @ [CHR 0x27]],
           [''CREATE FUNCTION t_out(t) RETURNS cstring'' @ [CHR 0x0A] @ ''    LANGUAGE c'' @
              [CHR 0x0A] @ ''    AS '' @ [CHR 0x27] @ ''tlib'' @ [CHR 0x27] @ '', '' @
              [CHR 0x27] @ ''t_out'' @ [CHR 0x27]]],
      (\<lambda>r. \<lparr>cls = DbTypeClass, attrs = [''name'' \<mapsto> PyStr ''t'']\<rparr>)
        (0 := \<lparr>cls = DbTypeClass, attrs = [''name'' \<mapsto> PyStr ''t'', ''_shell_created'' \<mapsto> PyBool True]\<rparr>))
   \<and> count_list [''CREATE TYPE t'',
            ''CREATE FUNCTION t_in(cstring) RETURNS t'' @ [CHR 0x0A] @ ''    LANGUAGE c'' @
              [CHR 0x0A] @ ''    AS '' @ [CHR 0x27] @ ''tlib'' @ [CHR 0x27] @ '', '' @
              [CHR 0x27] @ ''t_in'' @ [CHR 0x27],
            ''CREATE FUNCTION t_out(t) RETURNS cstring'' @ [CHR 0x0A] @ ''    LANGUAGE c'' @
              [CHR 0x0A] @ ''    AS '' @ [CHR 0x27] @ ''tlib'' @ [CHR 0x27] @ '', '' @
              [CHR 0x27] @ ''t_out'' @ [CHR 0x27]] ''CREATE TYPE t'' = 1"
proof -
  let ?q = "\<lambda>x. case attrs x ''name'' of Some (PyStr s) \<Rightarrow> s | _ \<Rightarrow> []"
  let ?f1 = "\<lparr>cls = FunctionClass, attrs = [''name'' \<mapsto> PyStr ''t_in'', ''arguments'' \<mapsto> PyStr ''cstring'',
          ''returns'' \<mapsto> PyStr ''t'', ''language'' \<mapsto> PyStr ''c'', ''obj_file'' \<mapsto> PyStr ''tlib'',
          ''_defining'' \<mapsto> PyObj 0]\<rparr>"
  let ?f2 = "\<lparr>cls = FunctionClass, attrs = [''name'' \<mapsto> PyStr ''t_out'', ''arguments'' \<mapsto> PyStr ''t'',
          ''returns'' \<mapsto> PyStr ''cstring'', ''language'' \<mapsto> PyStr ''c'', ''obj_file'' \<mapsto> PyStr ''tlib'',
          ''_defining'' \<mapsto> PyObj 0]\<rparr>"
  let ?h = "\<lambda>r::nat. \<lparr>cls = DbTypeClass, attrs = [''name'' \<mapsto> PyStr ''t'']\<rparr>"
  have run: "create_all ?q [(?f1, PyNone), (?f2, PyNone)] ?h
   = (Inr [[''CREATE TYPE t'',
            ''CREATE FUNCTION t_in(cstring) RETURNS t'' @ [CHR 0x0A] @ ''    LANGUAGE c'' @
              [CHR 0x0A] @ ''    AS '' @ [CHR 0x27] @ ''tlib'' @ [CHR 0x27] @ '', '' @
              [CHR 0x27] @ ''t_in'' @ [CHR 0x27]],
           [''CREATE FUNCTION t_out(t) RETURNS cstring'' @ [CHR 0x0A] @ ''    LANGUAGE c'' @
              [CHR 0x0A] @ ''    AS '' @ [CHR 0x27] @ ''tlib'' @ [CHR 0x27] @ '', '' @
              [CHR 0x27] @ ''t_out'' @ [CHR 0x27]]],
      ?h(0 := \<lparr>cls = DbTypeClass, attrs = [''name'' \<mapsto> PyStr ''t'', ''_shell_created'' \<mapsto> PyBool True]\<rparr>))"
    by (simp add: Function_create_def create_src_def create_volat_def create_config_def
        create_cost_def create_rows_def create_shell_def create_function_stmt_def
        create_leakproof_def create_strict_def create_secdef_def
        hasattr_def getattr_def getattr_default_def setattr_def bindE_def Let_def)
  from C4_shell_type_once [of "[(?f1, PyNone), (?f2, PyNone)]" 0 ?h ?q, OF _ _ _ run]
  show ?thesis using run by (simp add: hasattr_def setattr_def)
qed

subsection \<open>Function.get_deps\<close>

lemma py_eq_str_iff: "py_eq v (PyStr s) \<longleftrightarrow> v = PyStr s"
  by (cases v) simp_all

lemma designates_iff:
  assumes "qualname self \<noteq> []"
  shows "designates qualname self dep \<longleftrightarrow>
     (\<exists>a \<in> {''input'', ''output'', ''send'', ''receive''}. attrs dep a = Some (PyStr (qualname self)))"
  using assms
  by (auto simp: designates_def getattr_default_def py_eq_str_iff split: option.splits)

lemma designates_setattr:
  assumes "\<forall>x v. qualname (setattr x ''_defining'' v) = qualname x"
  shows "designates qualname (setattr s ''_defining'' v) dep = designates qualname s dep"
  using assms by (simp add: designates_def)

lemma setattr_twice: "setattr (setattr s a v) a w = setattr s a w"
  by (simp add: setattr_def)

lemma get_deps_loop_char:
  assumes indep: "\<forall>x v. qualname (setattr x ''_defining'' v) = qualname x"
  shows "get_deps_loop qualname h ds (A, s) =
     (A - set (filter (\<lambda>d. cls (h d) = DbTypeClass \<and> designates qualname s (h d)) ds),
      if filter (\<lambda>d. cls (h d) = DbTypeClass \<and> designates qualname s (h d)) ds = [] then s
      else setattr s ''_defining''
             (PyObj (last (filter (\<lambda>d. cls (h d) = DbTypeClass \<and> designates qualname s (h d)) ds))))"
proof (induction ds arbitrary: A s)
  case Nil
  show ?case by simp
next
  case (Cons d ds)
  show ?case
  proof (cases "cls (h d) = DbTypeClass \<and> designates qualname s (h d)")
    case True
    then show ?thesis
      using Cons.IH [of "A - {d}" "setattr s ''_defining'' (PyObj d)"]
      by (auto simp: designates_setattr [OF indep] setattr_twice filter_empty_conv)
  next
    case False
    then show ?thesis using Cons.IH [of A s] by (auto simp: filter_empty_conv)
  qed
qed


text \<open>
  C2, in the form the code satisfies: let F have a non-empty qualified name and let the inherited
  dependencies be listed in the order Python iterates them. \<open>get_deps\<close> returns them
  without the types that carry F's qualified name in \<open>input\<close>, \<open>output\<close>, \<open>send\<close> or
  \<open>receive\<close>; every other dependency is kept. If there is no such type \<open>_defining\<close> is
  left as it was; otherwise \<open>_defining\<close> is the last such type in iteration order, which
  is T when T is the only one.
\<close>

theorem C2_get_deps_defining:
  assumes indep: "\<forall>x v. qualname (setattr x ''_defining'' v) = qualname x"
    and qn: "qualname f \<noteq> []"
  shows "let D = filter (\<lambda>d. cls (h d) = DbTypeClass \<and>
                     (\<exists>a \<in> {''input'', ''output'', ''send'', ''receive''}.
                         attrs (h d) a = Some (PyStr (qualname f)))) ds;
             r = Function_get_deps qualname h ds f
         in fst r = set ds - set D \<and>
            attrs (snd r) ''_defining'' =
              (if D = [] then attrs f ''_defining'' else Some (PyObj (last D))) \<and>
            (\<forall>t. D = [t] \<longrightarrow> attrs (snd r) ''_defining'' = Some (PyObj t))"
proof -
  have same: "(\<lambda>d. cls (h d) = DbTypeClass \<and> designates qualname f (h d)) =
        (\<lambda>d. cls (h d) = DbTypeClass \<and>
                     (\<exists>a \<in> {''input'', ''output'', ''send'', ''receive''}.
                         attrs (h d) a = Some (PyStr (qualname f))))"
    using designates_iff [of qualname f] qn by simp
  show ?thesis
    unfolding Function_get_deps_def get_deps_loop_char [OF indep] same Let_def
    by (simp add: setattr_def)
qed

theorem C2_get_deps_defining_witness:
  "fst (Function_get_deps name_qualname conv_heap [3, 1] conv_function) = {3} \<and>
   attrs (snd (Function_get_deps name_qualname conv_heap [3, 1] conv_function)) ''_defining''
     = Some (PyObj 1)"
proof -
  have indep: "\<forall>x v. name_qualname (setattr x ''_defining'' v) = name_qualname x"
    by (simp add: name_qualname_def setattr_def)
  have qn: "name_qualname conv_function \<noteq> []"
    by (simp add: name_qualname_def conv_function_def)
  have st: "{3, Suc 0} - {Suc 0} = {3::nat}" by auto
  have nq: "name_qualname conv_function = ''conv''"
    by (simp add: name_qualname_def conv_function_def)
  show ?thesis
    using C2_get_deps_defining [OF indep qn, of conv_heap "[3, 1]"]
    by (simp add: Let_def conv_heap_def nq st)
qed

text \<open>
  Two types that both name \<open>conv\<close> as their input function: both are removed from the
  dependencies, and \<open>_defining\<close> ends as the second one, not the first.
\<close>

theorem C2_two_types_counterexample:
  "cls (conv_heap 1) = DbTypeClass \<and>
   attrs (conv_heap 1) ''input'' = Some (PyStr (name_qualname conv_function)) \<and>
   1 \<in> set [1, 2] \<and>
   attrs (snd (Function_get_deps name_qualname conv_heap [1, 2] conv_function)) ''_defining''
     \<noteq> Some (PyObj 1)"
  by (simp add: Function_get_deps_def designates_def getattr_default_def setattr_def
      conv_heap_def name_qualname_def conv_function_def)

subsection \<open>Function.alter\<close>

text \<open>
  C1, at the input where the code departs from it: altering the leakproof function
  \<open>f(integer)\<close> into itself (same source, same leakproof flag, same attributes) returns
  the statement \<open>ALTER FUNCTION f(integer) LEAKPROOF\<close> before what the inherited
  \<open>alter\<close> returns, so the statements of \<open>Function.alter\<close> are not empty for a pair of
  equal functions.
\<close>

theorem C1_alter_equal_leakproof:
  "Function_alter name_qualname trailing super_alter leakproof_function leakproof_function h =
     (Inr [S ''ALTER FUNCTION f(integer) LEAKPROOF'',
           L (super_alter leakproof_function leakproof_function)], h) \<and>
   flatten (S ''ALTER FUNCTION f(integer) LEAKPROOF'' #
            [L (super_alter leakproof_function leakproof_function)]) \<noteq> []"
  by (simp add: Function_alter_def alter_source_def alter_leakproof_def Proc_identifier_def
      hasattr_def getattr_def getattr_default_def name_qualname_def leakproof_function_def)

subsection \<open>Trigger.diff_map\<close>

lemma py_eq_refl: "py_eq v v"
proof (induction v)
  case (PyList l)
  then show ?case by (simp add: list_all2_same)
qed simp_all

lemma getattr_default_setattr:
  "getattr_default (setattr s a v) b = (if b = a then v else getattr_default s b)"
  by (simp add: getattr_default_def setattr_def)

lemma diff_attrs_fst:
  "distinct names \<Longrightarrow>
   fst (diff_attrs names intrg (b, s)) =
     (b \<and> list_all (\<lambda>a. py_eq (getattr_default s a) (getattr_default intrg a)) names)"
proof (induction names arbitrary: b s)
  case Nil
  show ?case by simp
next
  case (Cons a names)
  have frame: "list_all (\<lambda>x. py_eq (getattr_default (setattr s a v) x) (getattr_default intrg x)) names
      = list_all (\<lambda>x. py_eq (getattr_default s x) (getattr_default intrg x)) names" for v
    using Cons.prems by (auto simp: list_all_iff getattr_default_setattr)
  show ?case using Cons.prems Cons.IH by (simp add: frame)
qed

lemma diff_attrs_frame:
  "k \<notin> set names \<Longrightarrow> attrs (snd (diff_attrs names intrg (b, s))) k = attrs s k"
proof (induction names arbitrary: b s)
  case Nil
  show ?case by simp
next
  case (Cons a names)
  then show ?case by (auto simp: setattr_def)
qed

lemma diff_attrs_cls:
  "cls (snd (diff_attrs names intrg (b, s))) = cls s"
  by (induction names arbitrary: b s) (auto simp: setattr_def)

lemma getattr_default_cong:
  "attrs s a = attrs t a \<Longrightarrow> getattr_default s a = getattr_default t a"
  by (simp add: getattr_default_def)

lemma diff_attrs_result:
  "distinct names \<Longrightarrow> a \<in> set names \<Longrightarrow>
   py_eq (getattr_default (snd (diff_attrs names intrg (b, s))) a) (getattr_default intrg a)"
proof (induction names arbitrary: b s)
  case Nil
  then show ?case by simp
next
  case (Cons x names)
  let ?p = "if \<not> py_eq (getattr_default s x) (getattr_default intrg x)
            then (False, setattr s x (getattr_default intrg x)) else (b, s)"
  have step: "diff_attrs (x # names) intrg (b, s) = diff_attrs names intrg (fst ?p, snd ?p)"
    by simp
  show ?case
  proof (cases "a = x")
    case True
    have notin: "x \<notin> set names" using Cons.prems(1) by simp
    have "attrs (snd (diff_attrs names intrg (fst ?p, snd ?p))) x = attrs (snd ?p) x"
      by (rule diff_attrs_frame [OF notin])
    then have "getattr_default (snd (diff_attrs names intrg (fst ?p, snd ?p))) x
        = getattr_default (snd ?p) x"
      by (rule getattr_default_cong)
    moreover have "py_eq (getattr_default (snd ?p) x) (getattr_default intrg x)"
      by (simp add: getattr_default_setattr py_eq_refl)
    ultimately show ?thesis using True step by simp
  next
    case False
    then have "a \<in> set names" using Cons.prems(2) by simp
    moreover have "distinct names" using Cons.prems(1) by simp
    ultimately have "py_eq (getattr_default (snd (diff_attrs names intrg (fst ?p, snd ?p))) a)
        (getattr_default intrg a)"
      by (rule Cons.IH [rotated])
    then show ?thesis using step by simp
  qed
qed

lemma diff_attrs_same:
  "list_all (\<lambda>a. py_eq (getattr_default s a) (getattr_default intrg a)) names \<Longrightarrow>
   diff_attrs names intrg (b, s) = (b, s)"
  by (induction names arbitrary: b s) auto

lemma py_set_strs: "py_set (PyList (map PyStr es)) = Inr (map PyStr es)"
  by (simp add: list_ex_iff)

lemma no_lists_in_strs: "list_ex is_PyList (map PyStr es) = False"
  by (simp add: list_ex_iff)

lemma py_set_eq_strs: "py_set_eq (map PyStr es) (map PyStr es') \<longleftrightarrow> set es = set es'"
  by (auto simp: py_set_eq_def list_all_iff list_ex_iff)

lemma distinct_diff_attr_names: "distinct diff_attr_names"
  by (simp add: diff_attr_names_def)

lemma events_not_compared: "''events'' \<notin> set diff_attr_names"
  by (simp add: diff_attr_names_def)

lemma diff_events_strs:
  assumes "attrs s ''events'' = Some (PyList (map PyStr es))"
    "attrs intrg ''events'' = Some (PyList (map PyStr es'))"
  shows "diff_events intrg (same, s) =
     Inr (if set es \<noteq> set es' then (False, setattr s ''events'' (PyList (map PyStr es')))
          else (same, s))"
  using assms
  by (simp add: diff_events_def getattr_def bindE_def no_lists_in_strs py_set_eq_strs)


lemma Trigger_create_shape:
  "Trigger_create quote_id qualname h s = Inr c \<Longrightarrow> \<exists>x. c = [x] \<and> startswith x ''CREATE ''"
  by (auto simp: Trigger_create_def bindE_def startswith_def split: sum.splits pyval.splits)

text \<open>
  C10: when two triggers agree on every compared attribute and their \<open>events\<close> lists
  hold the same event names, in any order, \<open>diff_map\<close> returns only what
  \<open>diff_privileges\<close> and \<open>diff_description\<close> return: no DROP TRIGGER and no CREATE
  TRIGGER statement, and the trigger is left as it was.
\<close>

theorem C10_events_compared_as_sets:
  assumes same: "\<forall>a \<in> set diff_attr_names.
                   py_eq (getattr_default self a) (getattr_default intrg a)"
    and ev: "attrs self ''events'' = Some (PyList (map PyStr es))"
    and ev': "attrs intrg ''events'' = Some (PyList (map PyStr es'))"
    and sets: "set es = set es'"
  shows "Trigger_diff_map quote_id qualname trailing diff_privileges diff_description h self intrg
     = (Inr [L (diff_privileges self intrg), L (diff_description self intrg)], self)"
proof -
  have "list_all (\<lambda>a. py_eq (getattr_default self a) (getattr_default intrg a)) diff_attr_names"
    using same by (simp add: list_all_iff)
  then have d: "diff_attrs diff_attr_names intrg (True, self) = (True, self)"
    by (rule diff_attrs_same)
  have e: "diff_events intrg (True, self) = Inr (True, self)"
    using diff_events_strs [OF ev ev'] sets by simp
  show ?thesis by (simp add: Trigger_diff_map_def d e)
qed

text \<open>
  What \<open>diff_map\<close> returns for two triggers that differ in one of the compared
  attributes or in the set of their events, when the patched trigger can be rendered: the
  statement \<open>DROP TRIGGER <id>\<close>, then the list that \<open>create\<close> returns for the
  observed trigger patched with the new values (one statement, which starts with
  \<open>CREATE\<close>, and the trailing statements of the decorator), then what
  \<open>diff_privileges\<close> and \<open>diff_description\<close> return. The patched trigger agrees with
  the new one on every compared attribute, read with \<open>getattr(..., None)\<close>, and on the
  set of events.
\<close>

lemma Trigger_diff_map_differs:
  assumes differ: "(\<exists>a \<in> set diff_attr_names.
                      \<not> py_eq (getattr_default self a) (getattr_default intrg a)) \<or>
                   set es \<noteq> set es'"
    and ev: "attrs self ''events'' = Some (PyList (map PyStr es))"
    and ev': "attrs intrg ''events'' = Some (PyList (map PyStr es'))"
    and ident: "Trigger_identifier quote_id qualname h
                  (snd (Trigger_diff_map quote_id qualname trailing diff_privileges
                          diff_description h self intrg)) = Inr i"
    and create: "Trigger_create quote_id qualname h
                  (snd (Trigger_diff_map quote_id qualname trailing diff_privileges
                          diff_description h self intrg)) = Inr c"
  shows "\<exists>self' x. Trigger_diff_map quote_id qualname trailing diff_privileges diff_description
                     h self intrg
      = (Inr [S (''DROP TRIGGER '' @ i), L (map S ([x] @ trailing self')),
              L (diff_privileges self' intrg), L (diff_description self' intrg)], self') \<and>
      c = [x] \<and> startswith x ''CREATE '' \<and>
      (\<forall>a \<in> set diff_attr_names.
         py_eq (getattr_default self' a) (getattr_default intrg a)) \<and>
      (\<exists>l. attrs self' ''events'' = Some (PyList (map PyStr l)) \<and> set l = set es')"
proof -
  obtain same0 s0 where p0: "diff_attrs diff_attr_names intrg (True, self) = (same0, s0)"
    by (cases "diff_attrs diff_attr_names intrg (True, self)")
  have same0: "same0 = list_all (\<lambda>a. py_eq (getattr_default self a) (getattr_default intrg a))
                  diff_attr_names"
    using diff_attrs_fst [OF distinct_diff_attr_names, of intrg True self] p0 by simp
  have ev0: "attrs s0 ''events'' = Some (PyList (map PyStr es))"
    using diff_attrs_frame [OF events_not_compared, of intrg True self] p0 ev by simp
  let ?s1 = "if set es \<noteq> set es' then setattr s0 ''events'' (PyList (map PyStr es')) else s0"
  let ?same = "if set es \<noteq> set es' then False else same0"
  have de: "diff_events intrg (same0, s0) = Inr (?same, ?s1)"
    using diff_events_strs [OF ev0 ev'] by simp
  have nsame: "\<not> ?same" using differ same0 by (auto simp: list_all_iff)
  have snd_eq: "snd (Trigger_diff_map quote_id qualname trailing diff_privileges
                          diff_description h self intrg) = ?s1"
    by (simp add: Trigger_diff_map_def p0 de split: sum.splits)
  have i: "Trigger_identifier quote_id qualname h ?s1 = Inr i" using ident snd_eq by simp
  have c: "Trigger_create quote_id qualname h ?s1 = Inr c" using create snd_eq by simp
  from Trigger_create_shape [OF c] obtain x where x: "c = [x]" "startswith x ''CREATE ''" by blast
  have res: "Trigger_diff_map quote_id qualname trailing diff_privileges diff_description
                     h self intrg
      = (Inr [S (''DROP TRIGGER '' @ i), L (map S ([x] @ trailing ?s1)),
              L (diff_privileges ?s1 intrg), L (diff_description ?s1 intrg)], ?s1)"
    using nsame by (simp add: Trigger_diff_map_def p0 de i c x(1) decorated_def bindE_def)
  have upd: "\<forall>a \<in> set diff_attr_names. py_eq (getattr_default s0 a) (getattr_default intrg a)"
    using diff_attrs_result [OF distinct_diff_attr_names, of _ intrg True self] p0 by simp
  have upd1: "\<forall>a \<in> set diff_attr_names. py_eq (getattr_default ?s1 a) (getattr_default intrg a)"
    using upd events_not_compared by (auto simp: getattr_default_setattr)
  have evs: "\<exists>l. attrs ?s1 ''events'' = Some (PyList (map PyStr l)) \<and> set l = set es'"
    using ev0 by (auto simp: setattr_def)
  from res x upd1 evs show ?thesis by blast
qed


theorem C10_events_compared_as_sets_witness:
  "Trigger_diff_map example_quote_id name_qualname (\<lambda>t. []) (\<lambda>t u. []) (\<lambda>t u. []) table_heap
     (row_trigger [''insert'', ''update''] ''before'')
     (row_trigger [''update'', ''insert''] ''before'')
   = (Inr [L [], L []], row_trigger [''insert'', ''update''] ''before'')"
proof -
  have same: "\<forall>a \<in> set diff_attr_names.
      py_eq (getattr_default (row_trigger [''insert'', ''update''] ''before'') a)
            (getattr_default (row_trigger [''update'', ''insert''] ''before'') a)"
    by (simp add: diff_attr_names_def row_trigger_def getattr_default_def)
  have ev: "attrs (row_trigger [''insert'', ''update''] ''before'') ''events''
      = Some (PyList (map PyStr [''insert'', ''update'']))"
    by (simp add: row_trigger_def)
  have ev': "attrs (row_trigger [''update'', ''insert''] ''before'') ''events''
      = Some (PyList (map PyStr [''update'', ''insert'']))"
    by (simp add: row_trigger_def)
  have sets: "set [''insert'', ''update''] = set [''update'', ''insert'']"
    by auto
  show ?thesis
    by (rule C10_events_compared_as_sets [OF same ev ev' sets])
qed

lemma upper_examples:
  "upper ''after'' = ''AFTER''" "upper ''before'' = ''BEFORE''" "upper ''row'' = ''ROW''"
  "upper ''insert OR update'' = ''INSERT OR UPDATE''"
  by code_simp+

lemma row_trigger_diff_timing:
  "Trigger_diff_map example_quote_id name_qualname (\<lambda>t. []) (\<lambda>t u. []) (\<lambda>t u. []) table_heap
     (row_trigger [''insert'', ''update''] ''before'')
     (row_trigger [''insert'', ''update''] ''after'')
   = (Inr [S ''DROP TRIGGER tr1 ON t1'',
           L [S (''CREATE TRIGGER tr1'' @ [CHR 0x0A] @ ''    AFTER INSERT OR UPDATE ON t1'' @
                 [CHR 0x0A] @ ''    FOR EACH ROW'' @ [CHR 0x0A] @
                 ''    EXECUTE PROCEDURE f1()'')],
           L [], L []],
      row_trigger [''insert'', ''update''] ''after'')"
  by (simp add: Trigger_diff_map_def diff_attr_names_def diff_events_def decorated_def
      Trigger_identifier_def Trigger_create_def trigger_evts_def trigger_cond_def
      trigger_constr_def trigger_defer_def py_set_eq_def
      row_trigger_def table_heap_def example_quote_id_def name_qualname_def
      hasattr_def getattr_def getattr_default_def setattr_def bindE_def upper_examples
      Let_def)


text \<open>
  C5, at the input where the code departs from it: the observed trigger has a WHEN
  condition and the desired one has none, so the two differ in \<open>condition\<close>. The loop of
  \<open>diff_map\<close> sets \<open>self.condition = None\<close>, \<open>create\<close> finds the attribute present, and
  the statement after \<open>DROP TRIGGER tr1 ON t1\<close> carries the clause \<open>WHEN (None)\<close>: it is
  not the CREATE TRIGGER statement of the desired trigger, which \<open>create\<close> renders
  without a WHEN clause.
\<close>

theorem C5_condition_dropped:
  "fst (Trigger_diff_map example_quote_id name_qualname (\<lambda>t. []) (\<lambda>t u. []) (\<lambda>t u. [])
          table_heap when_trigger (row_trigger [''insert'', ''update''] ''before''))
     = Inr [S ''DROP TRIGGER tr1 ON t1'',
            L [S (''CREATE TRIGGER tr1'' @ [CHR 0x0A] @ ''    BEFORE INSERT OR UPDATE ON t1'' @
                  [CHR 0x0A] @ ''    FOR EACH ROW'' @ [CHR 0x0A] @ ''    WHEN (None)'' @
                  [CHR 0x0A] @ ''    EXECUTE PROCEDURE f1()'')],
            L [], L []] \<and>
   Trigger_create example_quote_id name_qualname table_heap
       (row_trigger [''insert'', ''update''] ''before'')
     = Inr [''CREATE TRIGGER tr1'' @ [CHR 0x0A] @ ''    BEFORE INSERT OR UPDATE ON t1'' @
            [CHR 0x0A] @ ''    FOR EACH ROW'' @ [CHR 0x0A] @ ''    EXECUTE PROCEDURE f1()'']"
  by (simp add: Trigger_diff_map_def diff_attr_names_def diff_events_def decorated_def
      Trigger_identifier_def Trigger_create_def trigger_evts_def trigger_cond_def
      trigger_constr_def trigger_defer_def py_set_eq_def
      row_trigger_def when_trigger_def table_heap_def example_quote_id_def name_qualname_def
      hasattr_def getattr_def getattr_default_def setattr_def bindE_def upper_examples
      Let_def)

subsection \<open>Trigger.get_implied_deps\<close>

text \<open>
  C8, in the form the code satisfies: take a trigger whose table is found in
  \<open>db.tables\<close>. If it carries \<open>_iscfg\<close>, \<open>get_implied_deps\<close> returns the inherited
  dependencies and the table. If it does not, and \<open>split_schema_obj\<close> splits its
  procedure into a schema and a name: when the name starts with
  \<open>tsvector_update_trigger\<close> the result is again the inherited dependencies and the
  table; otherwise the routine is looked up in \<open>db.functions\<close> with an empty argument
  signature, and the result is the inherited dependencies, the table and the routine when
  it is there, and a KeyError, with no dependencies returned, when it is not.
\<close>

theorem C8_implied_deps:
  assumes sch: "attrs t ''schema'' = Some s"
    and tbl: "attrs t ''table'' = Some tb"
    and tab: "db_tables (s, tb) = Some tr"
  shows "(hasattr t ''_iscfg'' \<longrightarrow>
           Trigger_get_implied_deps split_schema_obj db_tables db_functions super_deps t
             = Inr (insert tr super_deps)) \<and>
         (\<not> hasattr t ''_iscfg'' \<and> attrs t ''procedure'' = Some p \<and>
          split_schema_obj p s = Inr (fs, fn) \<longrightarrow>
            (startswith fn ''tsvector_update_trigger'' \<longrightarrow>
               Trigger_get_implied_deps split_schema_obj db_tables db_functions super_deps t
                 = Inr (insert tr super_deps)) \<and>
            (\<not> startswith fn ''tsvector_update_trigger'' \<longrightarrow>
               (\<forall>f. db_functions (fs, fn, []) = Some f \<longrightarrow>
                  Trigger_get_implied_deps split_schema_obj db_tables db_functions super_deps t
                    = Inr (insert f (insert tr super_deps))) \<and>
               (db_functions (fs, fn, []) = None \<longrightarrow>
                  Trigger_get_implied_deps split_schema_obj db_tables db_functions super_deps t
                    = Inl (KeyError ''functions''))))"
  using assms
  by (simp add: Trigger_get_implied_deps_def getattr_def bindE_def)

theorem C8_implied_deps_witness:
  "Trigger_get_implied_deps example_split example_tables example_functions {}
     (audit_trigger False) = Inr {9, 5}"
proof -
  have sch: "attrs (audit_trigger False) ''schema'' = Some (PyStr ''public'')"
    and tbl: "attrs (audit_trigger False) ''table'' = Some (PyStr ''t1'')"
    and proc: "attrs (audit_trigger False) ''procedure'' = Some (PyStr ''audit_proc'')"
    and cfg: "\<not> hasattr (audit_trigger False) ''_iscfg''"
    by (simp_all add: audit_trigger_def hasattr_def)
  have tab: "example_tables (PyStr ''public'', PyStr ''t1'') = Some 5"
    by (simp add: example_tables_def)
  have split: "example_split (PyStr ''audit_proc'') (PyStr ''public'')
      = Inr (''public'', ''audit_proc'')"
    by (simp add: example_split_def)
  have nopre: "\<not> startswith ''audit_proc'' ''tsvector_update_trigger''"
    by (simp add: startswith_def)
  have fn9: "example_functions (''public'', ''audit_proc'', []) = Some 9"
    by (simp add: example_functions_def)
  show ?thesis
    using C8_implied_deps [where t = "audit_trigger False" and s = "PyStr ''public''"
        and tb = "PyStr ''t1''" and db_tables = example_tables and tr = 5
        and p = "PyStr ''audit_proc''" and split_schema_obj = example_split
        and fs = "''public''" and fn = "''audit_proc''" and db_functions = example_functions
        and super_deps = "{}"] sch tbl tab proc split cfg nopre fn9
    by simp
qed

text \<open>
  A trigger added from the augmenter configuration that executes \<open>audit_proc\<close>: the
  name does not start with \<open>tsvector_update_trigger\<close>, the function is in the database,
  and the dependencies hold the table only.
\<close>

theorem C8_iscfg_counterexample:
  "\<not> startswith ''audit_proc'' ''tsvector_update_trigger'' \<and>
   example_split (PyStr ''audit_proc'') (PyStr ''public'') = Inr (''public'', ''audit_proc'') \<and>
   example_functions (''public'', ''audit_proc'', []) = Some 9 \<and>
   Trigger_get_implied_deps example_split example_tables example_functions {}
     (audit_trigger True) = Inr {5} \<and>
   (9::nat) \<notin> {5}"
  by (simp add: Trigger_get_implied_deps_def getattr_def bindE_def hasattr_def
      audit_trigger_def startswith_def example_functions_def example_tables_def
      example_split_def)

subsection \<open>External keys\<close>












lemma proc_setattrs_frame:
  "proc_setattrs f items = Inr f' \<Longrightarrow>
   cls f' = cls f \<and> (\<forall>k. k \<notin> fst ` set items \<longrightarrow> attrs f' k = attrs f k)"
proof (induction items arbitrary: f)
  case Nil
  then show ?case by simp
next
  case (Cons kv items)
  obtain k v where kv: "kv = (k, v)" by (cases kv)
  from Cons.prems kv have ok: "k \<noteq> ''allprivs''" "k \<noteq> ''objtype''"
    and rest: "proc_setattrs (setattr f k v) items = Inr f'"
    by (auto simp: proc_setattr_def bindE_def split: if_splits)
  from Cons.IH [OF rest] show ?case using kv by (auto simp: setattr_def)
qed

lemma proc_volatility_frame:
  "proc_volatility f = Inr f' \<Longrightarrow>
   cls f' = cls f \<and> (\<forall>k. k \<noteq> ''volatility'' \<longrightarrow> attrs f' k = attrs f k) \<and>
   (\<forall>k. hasattr f' k = hasattr f k)"
  by (auto simp: proc_volatility_def setattr_def hasattr_def split: if_splits pyval.splits)










lemma example_keys:
  "parse_proc_key ''function foo(integer, text)'' = Inr (''function'', ''foo'', ''integer, text'')"
  "parse_proc_key ''aggregate total(integer)'' = Inr (''aggregate'', ''total'', ''integer'')"
  by code_simp+




lemma proc_setattrs_ok:
  "''allprivs'' \<notin> fst ` set items \<Longrightarrow> ''objtype'' \<notin> fst ` set items \<Longrightarrow>
   \<exists>f'. proc_setattrs f items = Inr f' \<and>
        (\<forall>k. hasattr f' k = (hasattr f k \<or> k \<in> fst ` set items)) \<and>
        (\<forall>k v. attrs f' k = Some v \<longrightarrow> attrs f k = Some v \<or> (k, v) \<in> set items)"
proof (induction items arbitrary: f)
  case Nil
  show ?case by simp
next
  case (Cons kv items)
  obtain k v where kv: "kv = (k, v)" by (cases kv)
  have ok: "k \<noteq> ''allprivs''" "k \<noteq> ''objtype''" using Cons.prems kv by auto
  have rest: "''allprivs'' \<notin> fst ` set items" "''objtype'' \<notin> fst ` set items"
    using Cons.prems by auto
  from Cons.IH [OF rest, of "setattr f k v"] obtain f' where
    f': "proc_setattrs (setattr f k v) items = Inr f'"
      "\<forall>x. hasattr f' x = (hasattr (setattr f k v) x \<or> x \<in> fst ` set items)"
      "\<forall>x w. attrs f' x = Some w \<longrightarrow> attrs (setattr f k v) x = Some w \<or> (x, w) \<in> set items"
    by blast
  have "proc_setattrs f (kv # items) = Inr f'"
    using kv ok f'(1) by (simp add: proc_setattr_def)
  moreover have "\<forall>x. hasattr f' x = (hasattr f x \<or> x \<in> fst ` set (kv # items))"
    using f'(2) kv by (auto simp: hasattr_def setattr_def)
  moreover have "\<forall>x w. attrs f' x = Some w \<longrightarrow> attrs f x = Some w \<or> (x, w) \<in> set (kv # items)"
    using f'(3) kv by (auto simp: setattr_def split: if_splits)
  ultimately show ?case by blast
qed

lemma proc_volatility_ok:
  "\<forall>v. attrs f ''volatility'' = Some v \<longrightarrow> is_PyStr v \<Longrightarrow> \<exists>f'. proc_volatility f = Inr f'"
  by (cases "attrs f ''volatility''")
     (auto simp: proc_volatility_def hasattr_def getattr_default_def split: pyval.splits)

subsection \<open>ProcDict.from_map\<close>

text \<open>
  C7: take a key that \<open>ProcDict.from_map\<close> parses, and an entry whose attributes can be
  set (no \<open>allprivs\<close> or \<open>objtype\<close>, a string as \<open>volatility\<close>). For a function, an
  entry with both \<open>source\<close> and \<open>obj_file\<close> raises ValueError, and so does an entry
  with neither of them (an empty or missing entry with the message "has no
  specification"); an entry with exactly one of them, and without privileges, gives a
  function. For an aggregate the check is not made: a non-empty entry without privileges
  gives an aggregate, whatever it says about \<open>source\<close> and \<open>obj_file\<close>.
\<close>

theorem C7_source_xor_obj_file:
  assumes parse: "parse_proc_key key = Inr (kind, fnc, arguments)"
    and ro: "''allprivs'' \<notin> fst ` set items" "''objtype'' \<notin> fst ` set items"
    and vol: "\<forall>v. (''volatility'', v) \<in> set items \<longrightarrow> is_PyStr v"
  shows "ProcDict_from_map_entry pfm schema_name key None
           = Inl (ValueError (''Function '' @ [CHR 0x27] @ fnc @ [CHR 0x27] @
                              '' has no specification'')) \<and>
     (kind = ''function'' \<longrightarrow>
        (''source'' \<in> fst ` set items \<and> ''obj_file'' \<in> fst ` set items \<longrightarrow>
           ProcDict_from_map_entry pfm schema_name key (Some items)
             = Inl (ValueError (''Function '' @ [CHR 0x27] @ fnc @ [CHR 0x27] @
                                '': either source or obj_file must be specified''))) \<and>
        (''source'' \<notin> fst ` set items \<and> ''obj_file'' \<notin> fst ` set items \<longrightarrow>
           ProcDict_from_map_entry pfm schema_name key (Some items)
             = Inl (ValueError (''Function '' @ [CHR 0x27] @ fnc @ [CHR 0x27] @
                      (if items = [] then '' has no specification''
                       else '': either source or obj_file must be specified'')))) \<and>
        ((''source'' \<in> fst ` set items) \<noteq> (''obj_file'' \<in> fst ` set items) \<and>
         ''privileges'' \<notin> fst ` set items \<longrightarrow>
           (\<exists>func. ProcDict_from_map_entry pfm schema_name key (Some items) = Inr func \<and>
                   cls func = FunctionClass))) \<and>
     (kind = ''aggregate'' \<and> items \<noteq> [] \<and> ''privileges'' \<notin> fst ` set items \<longrightarrow>
        (\<exists>func. ProcDict_from_map_entry pfm schema_name key (Some items) = Inr func \<and>
                cls func = AggregateClass))"
proof -
  let ?f0 = "if kind = ''function''
             then \<lparr>cls = FunctionClass,
                   attrs = [''schema'' \<mapsto> schema_name, ''name'' \<mapsto> PyStr fnc,
                            ''arguments'' \<mapsto> PyStr arguments]\<rparr>
             else \<lparr>cls = AggregateClass,
                   attrs = [''schema'' \<mapsto> schema_name, ''name'' \<mapsto> PyStr fnc,
                            ''arguments'' \<mapsto> PyStr arguments,
                            ''language'' \<mapsto> PyStr ''internal'']\<rparr>"
  have none: "ProcDict_from_map_entry pfm schema_name key None
           = Inl (ValueError (''Function '' @ [CHR 0x27] @ fnc @ [CHR 0x27] @
                              '' has no specification''))"
    by (simp add: ProcDict_from_map_entry_def parse Let_def)
  from proc_setattrs_ok [OF ro, of ?f0] obtain f1 where
    f1: "proc_setattrs ?f0 items = Inr f1"
    and h1: "\<forall>k. hasattr f1 k = (hasattr ?f0 k \<or> k \<in> fst ` set items)"
    and v1: "\<forall>k v. attrs f1 k = Some v \<longrightarrow> attrs ?f0 k = Some v \<or> (k, v) \<in> set items"
    by blast
  have c1: "cls f1 = cls ?f0" using proc_setattrs_frame [OF f1] by simp
  have novol: "attrs ?f0 ''volatility'' = None" by simp
  have "\<forall>v. attrs f1 ''volatility'' = Some v \<longrightarrow> is_PyStr v"
    using v1 vol novol by (metis option.distinct(1))
  from proc_volatility_ok [OF this] obtain f2 where f2: "proc_volatility f1 = Inr f2" by blast
  have c2: "cls f2 = cls ?f0" and h2: "\<forall>k. hasattr f2 k = hasattr f1 k"
    using proc_volatility_frame [OF f2] c1 by simp_all
  have hs: "hasattr f2 ''source'' = (''source'' \<in> fst ` set items)"
    and ho: "hasattr f2 ''obj_file'' = (''obj_file'' \<in> fst ` set items)"
    using h1 h2 by (simp_all add: hasattr_def)
  have some: "items \<noteq> [] \<Longrightarrow> ProcDict_from_map_entry pfm schema_name key (Some items)
      = bindE (proc_check_source fnc f2) (proc_privileges pfm items)"
    by (simp add: ProcDict_from_map_entry_def parse Let_def f1 f2)
  have empty: "items = [] \<Longrightarrow> ProcDict_from_map_entry pfm schema_name key (Some items)
           = Inl (ValueError (''Function '' @ [CHR 0x27] @ fnc @ [CHR 0x27] @
                              '' has no specification''))"
    by (simp add: ProcDict_from_map_entry_def parse Let_def)
  have nopriv: "''privileges'' \<notin> fst ` set items \<Longrightarrow> proc_privileges pfm items f2 = Inr f2"
    by (simp add: proc_privileges_def map_of_eq_None_iff [THEN iffD2])
  have both: "kind = ''function'' \<Longrightarrow> ''source'' \<in> fst ` set items \<Longrightarrow>
      ''obj_file'' \<in> fst ` set items \<Longrightarrow>
      ProcDict_from_map_entry pfm schema_name key (Some items)
             = Inl (ValueError (''Function '' @ [CHR 0x27] @ fnc @ [CHR 0x27] @
                                '': either source or obj_file must be specified''))"
  proof -
    assume a: "kind = ''function''" "''source'' \<in> fst ` set items" "''obj_file'' \<in> fst ` set items"
    then have ne: "items \<noteq> []" by auto
    have "cls f2 = FunctionClass" using c2 a(1) by simp
    then show ?thesis using some [OF ne] hs ho a(2,3) by (simp add: proc_check_source_def)
  qed
  have neither: "kind = ''function'' \<Longrightarrow> ''source'' \<notin> fst ` set items \<Longrightarrow>
      ''obj_file'' \<notin> fst ` set items \<Longrightarrow>
      ProcDict_from_map_entry pfm schema_name key (Some items)
             = Inl (ValueError (''Function '' @ [CHR 0x27] @ fnc @ [CHR 0x27] @
                      (if items = [] then '' has no specification''
                       else '': either source or obj_file must be specified'')))"
  proof (cases "items = []")
    case True
    then show ?thesis using empty by simp
  next
    case False
    assume a: "kind = ''function''" "''source'' \<notin> fst ` set items" "''obj_file'' \<notin> fst ` set items"
    have "cls f2 = FunctionClass" using c2 a(1) by simp
    then show ?thesis using some [OF False] hs ho a(2,3) False by (simp add: proc_check_source_def)
  qed
  have one: "kind = ''function'' \<Longrightarrow>
      (''source'' \<in> fst ` set items) \<noteq> (''obj_file'' \<in> fst ` set items) \<Longrightarrow>
      ''privileges'' \<notin> fst ` set items \<Longrightarrow>
      \<exists>func. ProcDict_from_map_entry pfm schema_name key (Some items) = Inr func \<and>
                   cls func = FunctionClass"
  proof -
    assume a: "kind = ''function''"
      "(''source'' \<in> fst ` set items) \<noteq> (''obj_file'' \<in> fst ` set items)"
      "''privileges'' \<notin> fst ` set items"
    then have ne: "items \<noteq> []" by auto
    have cf: "cls f2 = FunctionClass" using c2 a(1) by simp
    have "proc_check_source fnc f2 = Inr f2" using hs ho a(2) by (auto simp: proc_check_source_def)
    then have "ProcDict_from_map_entry pfm schema_name key (Some items) = Inr f2"
      using some [OF ne] nopriv [OF a(3)] by simp
    then show ?thesis using cf by blast
  qed
  have agg: "kind = ''aggregate'' \<Longrightarrow> items \<noteq> [] \<Longrightarrow> ''privileges'' \<notin> fst ` set items \<Longrightarrow>
      \<exists>func. ProcDict_from_map_entry pfm schema_name key (Some items) = Inr func \<and>
                cls func = AggregateClass"
  proof -
    assume a: "kind = ''aggregate''" "items \<noteq> []" "''privileges'' \<notin> fst ` set items"
    have cf: "cls f2 = AggregateClass" using c2 a(1) by simp
    then have "proc_check_source fnc f2 = Inr f2" by (simp add: proc_check_source_def)
    then have "ProcDict_from_map_entry pfm schema_name key (Some items) = Inr f2"
      using some [OF a(2)] nopriv [OF a(3)] by simp
    then show ?thesis using cf by blast
  qed
  show ?thesis
    apply (intro conjI impI)
        apply (rule none)
       apply (rule both; simp)
      apply (rule neither; simp)
     apply (rule one; simp)
    apply (rule agg; simp)
    done
qed


theorem C7_source_xor_obj_file_witness:
  "(\<exists>func. ProcDict_from_map_entry (\<lambda>p a w. Inr p) (PyStr ''public'')
             ''function foo(integer, text)''
             (Some [(''language'', PyStr ''sql''), (''source'', PyStr ''select 1'')]) = Inr func \<and>
           cls func = FunctionClass) \<and>
   ProcDict_from_map_entry (\<lambda>p a w. Inr p) (PyStr ''public'')
     ''function foo(integer, text)''
     (Some [(''source'', PyStr ''select 1''), (''obj_file'', PyStr ''foo.so'')])
   = Inl (ValueError (''Function '' @ [CHR 0x27] @ ''foo'' @ [CHR 0x27] @
                      '': either source or obj_file must be specified'')) \<and>
   ProcDict_from_map_entry (\<lambda>p a w. Inr p) (PyStr ''public'')
     ''function foo(integer, text)'' (Some [(''language'', PyStr ''sql'')])
   = Inl (ValueError (''Function '' @ [CHR 0x27] @ ''foo'' @ [CHR 0x27] @
                      '': either source or obj_file must be specified''))"
proof -
  have a: "\<exists>func. ProcDict_from_map_entry (\<lambda>p a w. Inr p) (PyStr ''public'')
             ''function foo(integer, text)''
             (Some [(''language'', PyStr ''sql''), (''source'', PyStr ''select 1'')]) = Inr func \<and>
           cls func = FunctionClass"
    using C7_source_xor_obj_file [OF example_keys(1),
        of "[(''language'', PyStr ''sql''), (''source'', PyStr ''select 1'')]"
           "\<lambda>p a w. Inr p" "PyStr ''public''"]
    by simp
  have b: "ProcDict_from_map_entry (\<lambda>p a w. Inr p) (PyStr ''public'')
     ''function foo(integer, text)''
     (Some [(''source'', PyStr ''select 1''), (''obj_file'', PyStr ''foo.so'')])
   = Inl (ValueError (''Function '' @ [CHR 0x27] @ ''foo'' @ [CHR 0x27] @
                      '': either source or obj_file must be specified''))"
    using C7_source_xor_obj_file [OF example_keys(1),
        of "[(''source'', PyStr ''select 1''), (''obj_file'', PyStr ''foo.so'')]"
           "\<lambda>p a w. Inr p" "PyStr ''public''"]
    by simp
  have c: "ProcDict_from_map_entry (\<lambda>p a w. Inr p) (PyStr ''public'')
     ''function foo(integer, text)'' (Some [(''language'', PyStr ''sql'')])
   = Inl (ValueError (''Function '' @ [CHR 0x27] @ ''foo'' @ [CHR 0x27] @
                      '': either source or obj_file must be specified''))"
    using C7_source_xor_obj_file [OF example_keys(1),
        of "[(''language'', PyStr ''sql'')]" "\<lambda>p a w. Inr p" "PyStr ''public''"]
    by simp
  from a b c show ?thesis by (intro conjI)
qed

end
